theory Spec2Isabelle
  imports Main "HOL-Library.Word" "HOL-Library.Sublist" "HOL-Library.AList"
begin

section \<open>Errors and results\<close>

text \<open>
  Go errors as values.  The program distinguishes errors in three ways only:
  by their text (\<open>%v\<close> formatting and the tests), by
  \<open>apierrors.IsNotFound\<close> (a Kubernetes API status error whose reason is
  NotFound, found through the \<open>%w\<close> chain) and by
  \<open>errors.As(err, &azcore.ResponseError)\<close> with its status code.
  \<open>Plain\<close> is \<open>errors.New\<close> or \<open>fmt.Errorf\<close> without \<open>%w\<close>
  (the cause survives only as text); \<open>Wrap\<close> is \<open>fmt.Errorf("...: %w", err)\<close>.
\<close>

datatype error =
    Plain string
  | Wrap string error
  | APIStatus string string
  | ResponseError int string

fun Error_text :: "error \<Rightarrow> string" where
  "Error_text (Plain m) = m"
| "Error_text (Wrap m e) = m @ Error_text e"
| "Error_text (APIStatus reason m) = m"
| "Error_text (ResponseError code m) = m"

fun IsNotFound :: "error \<Rightarrow> bool" where
  "IsNotFound (APIStatus reason m) = (reason = ''NotFound'')"
| "IsNotFound (Wrap m e) = IsNotFound e"
| "IsNotFound (Plain m) = False"
| "IsNotFound (ResponseError code m) = False"

fun AsResponseError :: "error \<Rightarrow> int option" where
  "AsResponseError (ResponseError code m) = Some code"
| "AsResponseError (Wrap m e) = AsResponseError e"
| "AsResponseError (Plain m) = None"
| "AsResponseError (APIStatus reason m) = None"

text \<open>
  A function that can dereference a nil pointer or index a slice out of range has a
  third outcome besides a value and an error: the run-time panic.
\<close>

datatype 'a result = Ok 'a | Err error | Panic

section \<open>The campaign resource (api/v1/safeevict_types.go)\<close>

text \<open>
  A Go \<open>map[string]string\<close> is an association list: the order of the list is the order
  in which one \<open>range\<close> loop happens to visit the keys.  Go strings are byte strings,
  \<open>len\<close> counts bytes, and so does \<open>length\<close> on \<open>string\<close>.
\<close>

record SafeEvictSpec =
  LabelSelector :: "(string \<times> string) list"
  LastLogLines :: "string list"
  Nodepools :: "string list"
  Namespaces :: "string list"
  BaseForBackupPool :: string

record SafeEvict =
  SafeEvict_Name :: string
  Spec :: SafeEvictSpec

definition GetConfigmapName :: "SafeEvict \<Rightarrow> string" where
  "GetConfigmapName s = ''tmp'' @ SafeEvict_Name s"

definition GetTemporaryNodepoolName :: "SafeEvict \<Rightarrow> string" where
  "GetTemporaryNodepoolName s =
     (if length (BaseForBackupPool (Spec s)) > 9
      then ''tmp'' @ take 9 (BaseForBackupPool (Spec s))
      else ''tmp'' @ BaseForBackupPool (Spec s))"

section \<open>Cluster identity from instance metadata (internal/azure/azure_controller.go)\<close>

text \<open>\<open>strings.Split(s, "_")\<close> for a one-byte separator: one more part than separators.\<close>

fun strings_Split :: "string \<Rightarrow> char \<Rightarrow> string list" where
  "strings_Split [] sep = [[]]"
| "strings_Split (c # cs) sep =
     (if c = sep then [] # strings_Split cs sep
      else (case strings_Split cs sep of
              [] \<Rightarrow> [[c]]
            | p # ps \<Rightarrow> (c # p) # ps))"

record Compute =
  ResourceGroupName :: string
  SubscriptionID :: string

text \<open>
  The metadata request is the function's only input: \<open>client.Do\<close> fails, or answers
  with a status code and a body that decodes or not.  The function returns
  (subscription, resource group, cluster name, err); after \<open>client.Do\<close> succeeded the
  variable \<open>err\<close> in scope is nil, so the two early returns that hand back \<open>err\<close>
  return no error.  \<open>parts[2]\<close> is read first, then \<open>parts[1]\<close>; an index outside the
  slice panics.
\<close>

definition GetClusterInfo ::
  "error + (nat \<times> (error + Compute)) \<Rightarrow> (string \<times> string \<times> string \<times> error option) result" where
  "GetClusterInfo imds =
     (case imds of
        Inl e \<Rightarrow> Ok ('''', '''', '''', Some e)
      | Inr (StatusCode, body) \<Rightarrow>
          if StatusCode \<noteq> 200 then Ok ('''', '''', '''', None)
          else (case body of
                  Inl e \<Rightarrow> Ok ('''', '''', '''', Some e)
                | Inr metadata \<Rightarrow>
                    let parts = strings_Split (ResourceGroupName metadata) CHR ''_'' in
                    if length parts < 2 then Ok ('''', '''', '''', None)
                    else if 2 < length parts
                      then Ok (SubscriptionID metadata, parts ! 1, parts ! 2, None)
                      else Panic))"

section \<open>Cluster and cloud objects\<close>

text \<open>
  Only the fields the program reads or writes.  A Go pointer field is an \<open>option\<close>
  (\<open>None\<close> is nil); \<open>int32\<close> is \<open>32 word\<close>; \<open>corev1.PodPhase\<close> and
  \<open>armcontainerservice.AgentPoolMode\<close> are string types.
\<close>

record OwnerReference =
  Kind :: string
  OwnerReference_Name :: string

record EnvVar =
  EnvVar_Name :: string
  Value :: string

record Container =
  Env :: "EnvVar list"

record Pod =
  Pod_Name :: string
  Pod_Namespace :: string
  Pod_Labels :: "(string \<times> string) list"
  OwnerReferences :: "OwnerReference list"
  Containers :: "Container list"
  NodeName :: string
  Phase :: string

definition PodRunning :: string where
  "PodRunning = ''Running''"

record Node =
  Node_Name :: string
  Node_Labels :: "(string \<times> string) list"
  Unschedulable :: bool

record ManagedClusterAgentPoolProfileProperties =
  VMSize :: "string option"
  Count :: "32 word option"
  MinCount :: "32 word option"
  MaxCount :: "32 word option"
  VnetSubnetID :: "string option"
  Mode :: "string option"
  EnableAutoScaling :: "bool option"
  OrchestratorVersion :: "string option"
  NodeLabels :: "(string \<times> string option) list"
  NodeTaints :: "string option list"
  OSType :: "string option"
  ProvisioningState :: "string option"

record AgentPool =
  AgentPool_Name :: "string option"
  Properties :: "ManagedClusterAgentPoolProfileProperties option"

definition AgentPoolModeSystem :: string where
  "AgentPoolModeSystem = ''System''"

text \<open>
  The upgrade profile: \<open>Properties\<close> may be nil, and so may its
  \<open>LatestNodeImageVersion\<close>.
\<close>

type_synonym AgentPoolUpgradeProfile = "string option option"

text \<open>A Go map lookup \<open>m[k]\<close> without the presence flag: the zero value when absent.\<close>

definition map_index :: "(string \<times> string) list \<Rightarrow> string \<Rightarrow> string" where
  "map_index m k = (case map_of m k of None \<Rightarrow> '''' | Some v \<Rightarrow> v)"

section \<open>The outside world: calls and their answers\<close>

text \<open>
  The program acts only through its clients: the Kubernetes API, the cloud control
  plane's agent pool client and the external agent-pool service behind
  \<open>AzureDevopsControllerInterface\<close>.  Every call is recorded, in order, in a trace;
  what a call answers is given by the environment as a function of the trace so far, so
  the environment may be any stateful system.  A program function takes the trace and
  returns its Go results with the extended trace.
\<close>

datatype call =
    CClientGet string string
  | CNodesList
  | CNodesUpdate Node
  | CPodsList string
  | CPodsGet string string
  | CPodsGetLogs string string
  | CPodsDelete string string
  | CJobsDelete string string
  | CConfigMapsGet string string
  | CConfigMapsCreate string string "(string \<times> string) list"
  | CConfigMapsDelete string string
  | CAgentPoolsGet string
  | CAgentPoolsBeginCreateOrUpdate string AgentPool
  | CAgentPoolsBeginDelete string
  | CAgentPoolsGetUpgradeProfile string
  | CAgentPoolsBeginUpgradeNodeImageVersion string
  | CDisableAgent string string
  | CRemoveAgent string string

type_synonym trace = "call list"

text \<open>
  \<open>Pods_GetLogs\<close> answers with the failure of opening the stream, or with what reading
  the stream to its end gives: a read error or the whole text.
\<close>

record env =
  Client_Get :: "trace \<Rightarrow> string \<Rightarrow> string \<Rightarrow> error + SafeEvict"
  Nodes_List :: "trace \<Rightarrow> error + Node list"
  Nodes_Update :: "trace \<Rightarrow> Node \<Rightarrow> error option"
  Pods_List :: "trace \<Rightarrow> string \<Rightarrow> error + Pod list"
  Pods_Get :: "trace \<Rightarrow> string \<Rightarrow> string \<Rightarrow> error + Pod"
  Pods_GetLogs :: "trace \<Rightarrow> string \<Rightarrow> string \<Rightarrow> error + (error + string)"
  Pods_Delete :: "trace \<Rightarrow> string \<Rightarrow> string \<Rightarrow> error option"
  Jobs_Delete :: "trace \<Rightarrow> string \<Rightarrow> string \<Rightarrow> error option"
  ConfigMaps_Get :: "trace \<Rightarrow> string \<Rightarrow> string \<Rightarrow> error + (string \<times> string) list"
  ConfigMaps_Create :: "trace \<Rightarrow> string \<Rightarrow> string \<Rightarrow> (string \<times> string) list \<Rightarrow> error option"
  ConfigMaps_Delete :: "trace \<Rightarrow> string \<Rightarrow> string \<Rightarrow> error option"
  AgentPools_Get :: "trace \<Rightarrow> string \<Rightarrow> error + AgentPool"
  AgentPools_BeginCreateOrUpdate :: "trace \<Rightarrow> string \<Rightarrow> AgentPool \<Rightarrow> error option"
  AgentPools_BeginDelete :: "trace \<Rightarrow> string \<Rightarrow> error option"
  AgentPools_GetUpgradeProfile :: "trace \<Rightarrow> string \<Rightarrow> error + AgentPoolUpgradeProfile"
  AgentPools_BeginUpgradeNodeImageVersion :: "trace \<Rightarrow> string \<Rightarrow> error option"
  Devops_DisableAgent :: "trace \<Rightarrow> string \<Rightarrow> string \<Rightarrow> error option"
  Devops_RemoveAgent :: "trace \<Rightarrow> string \<Rightarrow> string \<Rightarrow> error option"

section \<open>Library functions\<close>

text \<open>\<open>strings.HasSuffix\<close>, and \<open>strings.ToLower\<close> on ASCII letters.\<close>

definition HasSuffix :: "string \<Rightarrow> string \<Rightarrow> bool" where
  "HasSuffix s suf = (length suf \<le> length s \<and> drop (length s - length suf) s = suf)"

definition lower_char :: "char \<Rightarrow> char" where
  "lower_char c =
     (case map_of (zip ''ABCDEFGHIJKLMNOPQRSTUVWXYZ'' ''abcdefghijklmnopqrstuvwxyz'') c of
        Some l \<Rightarrow> l
      | None \<Rightarrow> c)"

definition ToLower :: "string \<Rightarrow> string" where
  "ToLower s = map lower_char s"

section \<open>Jobs (internal/job/job_controller.go)\<close>

text \<open>
  \<open>KillJobByPod\<close>: no owner reference at all is an error; the first owner whose kind
  is "job" in any letter case names the job; no such owner, or one with an empty name,
  is an error; otherwise the job is deleted and a failure is wrapped.
\<close>

definition KillJobByPod :: "env \<Rightarrow> Pod \<Rightarrow> trace \<Rightarrow> error option \<times> trace" where
  "KillJobByPod c pod tr =
     (if length (OwnerReferences pod) = 0
      then (Some (Plain (''pod '' @ Pod_Name pod @ '' has no owner references'')), tr)
      else
        let jobName = (case find (\<lambda>ownerRef. ToLower (Kind ownerRef) = ''job'') (OwnerReferences pod) of
                         None \<Rightarrow> ''''
                       | Some ownerRef \<Rightarrow> OwnerReference_Name ownerRef) in
        if jobName = ''''
        then (Some (Plain (''no job owner found for pod '' @ Pod_Name pod)), tr)
        else (case Jobs_Delete c tr (Pod_Namespace pod) jobName of
                Some err \<Rightarrow> (Some (Wrap ''failed to delete job: '' err),
                             tr @ [CJobsDelete (Pod_Namespace pod) jobName])
              | None \<Rightarrow> (None, tr @ [CJobsDelete (Pod_Namespace pod) jobName])))"

section \<open>Pods (internal/pod/pod_controller.go)\<close>

definition KillPod :: "env \<Rightarrow> Pod \<Rightarrow> trace \<Rightarrow> error option \<times> trace" where
  "KillPod c pod tr =
     (case Pods_Delete c tr (Pod_Namespace pod) (Pod_Name pod) of
        Some err \<Rightarrow>
          (Some (Wrap (''failed to delete pod '' @ [CHR 0x27] @ Pod_Name pod @ [CHR 0x27]
                       @ '' in namespace '' @ Pod_Namespace pod @ '': '') err),
           tr @ [CPodsDelete (Pod_Namespace pod) (Pod_Name pod)])
      | None \<Rightarrow> (None, tr @ [CPodsDelete (Pod_Namespace pod) (Pod_Name pod)]))"

definition fetchPodLogs :: "env \<Rightarrow> string \<Rightarrow> string \<Rightarrow> trace \<Rightarrow> (error + string) \<times> trace" where
  "fetchPodLogs c podName namespace tr =
     (case Pods_GetLogs c tr namespace podName of
        Inl err \<Rightarrow>
          (Inl (Wrap (''failed to fetch logs for pod '' @ [CHR 0x27] @ podName @ [CHR 0x27]
                      @ '' in namespace '' @ namespace @ '': '') err),
           tr @ [CPodsGetLogs namespace podName])
      | Inr (Inl err) \<Rightarrow>
          (Inl (Wrap (''failed to read logs for pod '' @ [CHR 0x27] @ podName @ [CHR 0x27]
                      @ '' in namespace '' @ namespace @ '': '') err),
           tr @ [CPodsGetLogs namespace podName])
      | Inr (Inr logs) \<Rightarrow> (Inr logs, tr @ [CPodsGetLogs namespace podName]))"

text \<open>
  \<open>getPodsPool\<close>: the value of the first environment variable named AZP_POOL, over the
  containers in order.
\<close>

definition getPodsPool :: "env \<Rightarrow> string \<Rightarrow> string \<Rightarrow> trace \<Rightarrow> (error + string) \<times> trace" where
  "getPodsPool c podName namespace tr =
     (case Pods_Get c tr namespace podName of
        Inl err \<Rightarrow>
          (Inl (Wrap (''failed to get pod '' @ [CHR 0x27] @ podName @ [CHR 0x27]
                      @ '' in namespace '' @ namespace @ '': '') err),
           tr @ [CPodsGet namespace podName])
      | Inr pod \<Rightarrow>
          (case find (\<lambda>envVar. EnvVar_Name envVar = ''AZP_POOL'') (concat (map Env (Containers pod))) of
             Some envVar \<Rightarrow> (Inr (Value envVar), tr @ [CPodsGet namespace podName])
           | None \<Rightarrow>
               (Inl (Plain (''environment variable AZP_POOL not found in pod '' @ [CHR 0x27] @ podName
                            @ [CHR 0x27] @ '' in namespace '' @ namespace)),
                tr @ [CPodsGet namespace podName])))"

text \<open>
  \<open>EvictIdlePods\<close>: the loop over the pods; every \<open>return err\<close> of the body leaves the
  loop and the function.
\<close>

fun EvictIdlePods :: "env \<Rightarrow> Pod list \<Rightarrow> trace \<Rightarrow> error option \<times> trace" where
  "EvictIdlePods c [] tr = (None, tr)"
| "EvictIdlePods c (pod # pods) tr =
     (case getPodsPool c (Pod_Name pod) (Pod_Namespace pod) tr of
        (Inl err, tr1) \<Rightarrow> (Some err, tr1)
      | (Inr poolName, tr1) \<Rightarrow>
          (case Devops_DisableAgent c tr1 poolName (Pod_Name pod) of
             Some err \<Rightarrow> (Some err, tr1 @ [CDisableAgent poolName (Pod_Name pod)])
           | None \<Rightarrow>
               let tr2 = tr1 @ [CDisableAgent poolName (Pod_Name pod)] in
               (case Devops_RemoveAgent c tr2 poolName (Pod_Name pod) of
                  Some err \<Rightarrow> (Some err, tr2 @ [CRemoveAgent poolName (Pod_Name pod)])
                | None \<Rightarrow>
                    let tr3 = tr2 @ [CRemoveAgent poolName (Pod_Name pod)] in
                    (case KillJobByPod c pod tr3 of
                       (Some err, tr4) \<Rightarrow> (Some err, tr4)
                     | (None, tr4) \<Rightarrow>
                         (case KillPod c pod tr4 of
                            (Some err, tr5) \<Rightarrow> (Some err, tr5)
                          | (None, tr5) \<Rightarrow> EvictIdlePods c pods tr5)))))"

text \<open>
  \<open>GetSafeToEvictPods\<close>.  The inner loop visits every key of the label selector; for
  each key whose value the pod's label does not equal, and only when the pod is
  running, it fetches the pod's log again and, when the log ends with one of the
  configured lines, appends the pod.  The \<open>break\<close> leaves the loop over the lines only,
  the \<open>continue\<close> statements go to the next key.
\<close>

fun GetSafeToEvictPods_keys ::
  "env \<Rightarrow> SafeEvictSpec \<Rightarrow> Pod \<Rightarrow> (string \<times> string) list \<Rightarrow> Pod list \<Rightarrow> trace \<Rightarrow> Pod list \<times> trace" where
  "GetSafeToEvictPods_keys c spec pod [] filteredPods tr = (filteredPods, tr)"
| "GetSafeToEvictPods_keys c spec pod ((key, val) # rest) filteredPods tr =
     (if map_index (Pod_Labels pod) key \<noteq> val \<and> Phase pod = PodRunning
      then (case fetchPodLogs c (Pod_Name pod) (Pod_Namespace pod) tr of
              (Inl err, tr1) \<Rightarrow> GetSafeToEvictPods_keys c spec pod rest filteredPods tr1
            | (Inr logs, tr1) \<Rightarrow>
                GetSafeToEvictPods_keys c spec pod rest
                  (if list_ex (\<lambda>line. HasSuffix logs line) (LastLogLines spec)
                   then filteredPods @ [pod] else filteredPods) tr1)
      else GetSafeToEvictPods_keys c spec pod rest filteredPods tr)"

fun GetSafeToEvictPods_items ::
  "env \<Rightarrow> SafeEvictSpec \<Rightarrow> Pod list \<Rightarrow> Pod list \<Rightarrow> trace \<Rightarrow> Pod list \<times> trace" where
  "GetSafeToEvictPods_items c spec [] filteredPods tr = (filteredPods, tr)"
| "GetSafeToEvictPods_items c spec (pod # items) filteredPods tr =
     (if Pod_Namespace pod \<notin> set (Namespaces spec)
      then GetSafeToEvictPods_items c spec items filteredPods tr
      else (case GetSafeToEvictPods_keys c spec pod (LabelSelector spec) filteredPods tr of
              (filteredPods1, tr1) \<Rightarrow> GetSafeToEvictPods_items c spec items filteredPods1 tr1))"

definition GetSafeToEvictPods :: "env \<Rightarrow> SafeEvictSpec \<Rightarrow> trace \<Rightarrow> (error + Pod list) \<times> trace" where
  "GetSafeToEvictPods c spec tr =
     (case Pods_List c tr '''' of
        Inl err \<Rightarrow> (Inl (Wrap ''failed to list pods: '' err), tr @ [CPodsList ''''])
      | Inr items \<Rightarrow>
          (case GetSafeToEvictPods_items c spec items [] (tr @ [CPodsList '''']) of
             (filteredPods, tr1) \<Rightarrow> (Inr filteredPods, tr1)))"

text \<open>
  The spec's "done" label condition: the pod carries every label of the selector with
  the selector's value.
\<close>

definition labelled_done :: "SafeEvictSpec \<Rightarrow> Pod \<Rightarrow> bool" where
  "labelled_done spec pod = list_all (\<lambda>(key, val). map_index (Pod_Labels pod) key = val) (LabelSelector spec)"

text \<open>
  The eviction sequence in the spec's words.  The names the sub-steps act on:
  a pod object's pool value is the value of the first environment variable named
  AZP_POOL, over its containers in order; the pool value read for a pod is the pool
  value of the object the API answers with for the pod's namespace and name; a pod's
  owning job is the first owner reference whose kind is "job" when lower-cased, and it
  must have a name.
\<close>

fun first_env :: "string \<Rightarrow> EnvVar list \<Rightarrow> string option" where
  "first_env name [] = None"
| "first_env name (envVar # envVars) =
     (if EnvVar_Name envVar = name then Some (Value envVar) else first_env name envVars)"

definition pool_value :: "Pod \<Rightarrow> string option" where
  "pool_value live = first_env ''AZP_POOL'' (concat (map Env (Containers live)))"

definition pool_read :: "env \<Rightarrow> trace \<Rightarrow> Pod \<Rightarrow> string option" where
  "pool_read c tr pod =
     (case Pods_Get c tr (Pod_Namespace pod) (Pod_Name pod) of
        Inl err \<Rightarrow> None
      | Inr live \<Rightarrow> pool_value live)"

fun first_job :: "OwnerReference list \<Rightarrow> string option" where
  "first_job [] = None"
| "first_job (ownerRef # ownerRefs) =
     (if ToLower (Kind ownerRef) = ''job'' then Some (OwnerReference_Name ownerRef)
      else first_job ownerRefs)"

definition owning_job :: "Pod \<Rightarrow> string option" where
  "owning_job pod =
     (case first_job (OwnerReferences pod) of
        None \<Rightarrow> None
      | Some jobName \<Rightarrow> if jobName = '''' then None else Some jobName)"

text \<open>
  Sub-steps run in order and the first failure ends everything.  Per pod: the pool
  value is read, then the agent of that pool with the pod's name is disabled, the same
  agent is removed, the owning job is deleted and the pod is deleted.
\<close>

fun first_failure :: "(trace \<Rightarrow> error option \<times> trace) list \<Rightarrow> trace \<Rightarrow> error option \<times> trace" where
  "first_failure [] tr = (None, tr)"
| "first_failure (step # steps) tr =
     (case step tr of
        (Some err, tr1) \<Rightarrow> (Some err, tr1)
      | (None, tr1) \<Rightarrow> first_failure steps tr1)"

definition disable_agent :: "env \<Rightarrow> string \<Rightarrow> Pod \<Rightarrow> trace \<Rightarrow> error option \<times> trace" where
  "disable_agent c poolName pod tr =
     (Devops_DisableAgent c tr poolName (Pod_Name pod), tr @ [CDisableAgent poolName (Pod_Name pod)])"

definition remove_agent :: "env \<Rightarrow> string \<Rightarrow> Pod \<Rightarrow> trace \<Rightarrow> error option \<times> trace" where
  "remove_agent c poolName pod tr =
     (Devops_RemoveAgent c tr poolName (Pod_Name pod), tr @ [CRemoveAgent poolName (Pod_Name pod)])"

definition delete_job :: "env \<Rightarrow> Pod \<Rightarrow> trace \<Rightarrow> error option \<times> trace" where
  "delete_job c pod tr =
     (case owning_job pod of
        None \<Rightarrow>
          (Some (Plain (if OwnerReferences pod = []
                        then ''pod '' @ Pod_Name pod @ '' has no owner references''
                        else ''no job owner found for pod '' @ Pod_Name pod)), tr)
      | Some jobName \<Rightarrow>
          (map_option (Wrap ''failed to delete job: '') (Jobs_Delete c tr (Pod_Namespace pod) jobName),
           tr @ [CJobsDelete (Pod_Namespace pod) jobName]))"

definition delete_pod :: "env \<Rightarrow> Pod \<Rightarrow> trace \<Rightarrow> error option \<times> trace" where
  "delete_pod c pod tr =
     (map_option (Wrap (''failed to delete pod '' @ [CHR 0x27] @ Pod_Name pod @ [CHR 0x27]
                        @ '' in namespace '' @ Pod_Namespace pod @ '': ''))
        (Pods_Delete c tr (Pod_Namespace pod) (Pod_Name pod)),
      tr @ [CPodsDelete (Pod_Namespace pod) (Pod_Name pod)])"

definition evict_pod :: "env \<Rightarrow> Pod \<Rightarrow> trace \<Rightarrow> error option \<times> trace" where
  "evict_pod c pod tr =
     (case pool_read c tr pod of
        None \<Rightarrow>
          (Some (case Pods_Get c tr (Pod_Namespace pod) (Pod_Name pod) of
                   Inl err \<Rightarrow>
                     Wrap (''failed to get pod '' @ [CHR 0x27] @ Pod_Name pod @ [CHR 0x27]
                           @ '' in namespace '' @ Pod_Namespace pod @ '': '') err
                 | Inr live \<Rightarrow>
                     Plain (''environment variable AZP_POOL not found in pod '' @ [CHR 0x27]
                            @ Pod_Name pod @ [CHR 0x27] @ '' in namespace '' @ Pod_Namespace pod)),
           tr @ [CPodsGet (Pod_Namespace pod) (Pod_Name pod)])
      | Some poolName \<Rightarrow>
          first_failure [disable_agent c poolName pod, remove_agent c poolName pod,
                         delete_job c pod, delete_pod c pod]
            (tr @ [CPodsGet (Pod_Namespace pod) (Pod_Name pod)]))"

text \<open>
  \<open>pod_calls\<close> is the sequence of calls a fully evicted pod leaves in the trace, and
  \<open>evictions\<close> the calls fully evicted pods leave, one pod after the other, given the
  pool and the job of each.
\<close>

definition pod_calls :: "Pod \<Rightarrow> string \<Rightarrow> string \<Rightarrow> call list" where
  "pod_calls pod poolName jobName =
     [CPodsGet (Pod_Namespace pod) (Pod_Name pod),
      CDisableAgent poolName (Pod_Name pod),
      CRemoveAgent poolName (Pod_Name pod),
      CJobsDelete (Pod_Namespace pod) jobName,
      CPodsDelete (Pod_Namespace pod) (Pod_Name pod)]"

definition evictions :: "Pod list \<Rightarrow> (string \<times> string) list \<Rightarrow> call list" where
  "evictions pods names =
     concat (map2 (\<lambda>pod (poolName, jobName). pod_calls pod poolName jobName) pods names)"

section \<open>The scaling-state record (internal/configmap/configmap_controller.go)\<close>

text \<open>
  \<open>getConfigMap\<close> hands a NotFound error back as it is and re-words any other error;
  \<open>GetConfigMapData\<close> does the same with what \<open>getConfigMap\<close> returned.
\<close>

definition getConfigMap ::
  "env \<Rightarrow> string \<Rightarrow> string \<Rightarrow> trace \<Rightarrow> (error + (string \<times> string) list) \<times> trace" where
  "getConfigMap c namespace name tr =
     (case ConfigMaps_Get c tr namespace name of
        Inl err \<Rightarrow>
          (if IsNotFound err then (Inl err, tr @ [CConfigMapsGet namespace name])
           else (Inl (Plain (''failed to get ConfigMap: '' @ Error_text err)),
                 tr @ [CConfigMapsGet namespace name]))
      | Inr configMap \<Rightarrow> (Inr configMap, tr @ [CConfigMapsGet namespace name]))"

text \<open>
  \<open>CreateConfigMap\<close>: when the read succeeds nothing is written; on any error of the
  read the create request is sent.
\<close>

definition CreateConfigMap ::
  "env \<Rightarrow> string \<Rightarrow> string \<Rightarrow> (string \<times> string) list \<Rightarrow> trace \<Rightarrow> error option \<times> trace" where
  "CreateConfigMap c namespace name data tr =
     (case getConfigMap c namespace name tr of
        (Inr configMap, tr1) \<Rightarrow> (None, tr1)
      | (Inl err, tr1) \<Rightarrow>
          (case ConfigMaps_Create c tr1 namespace name data of
             Some err \<Rightarrow> (Some (Plain (''failed to create ConfigMap: '' @ Error_text err)),
                          tr1 @ [CConfigMapsCreate namespace name data])
           | None \<Rightarrow> (None, tr1 @ [CConfigMapsCreate namespace name data])))"

definition DeleteConfigMap :: "env \<Rightarrow> string \<Rightarrow> string \<Rightarrow> trace \<Rightarrow> error option \<times> trace" where
  "DeleteConfigMap c namespace name tr =
     (case ConfigMaps_Delete c tr namespace name of
        None \<Rightarrow> (None, tr @ [CConfigMapsDelete namespace name])
      | Some err \<Rightarrow>
          (if IsNotFound err then (None, tr @ [CConfigMapsDelete namespace name])
           else (Some (Plain (''failed to delete ConfigMap: '' @ Error_text err)),
                 tr @ [CConfigMapsDelete namespace name])))"

definition GetConfigMapData ::
  "env \<Rightarrow> string \<Rightarrow> string \<Rightarrow> trace \<Rightarrow> (error + (string \<times> string) list) \<times> trace" where
  "GetConfigMapData c namespace name tr =
     (case getConfigMap c namespace name tr of
        (Inl err, tr1) \<Rightarrow>
          (if IsNotFound err then (Inl err, tr1)
           else (Inl (Plain (''failed to get ConfigMap data: '' @ Error_text err)), tr1))
      | (Inr configMap, tr1) \<Rightarrow> (Inr configMap, tr1))"

text \<open>A call that can change the scaling-state record of the given name.\<close>

fun writes_record :: "string \<Rightarrow> string \<Rightarrow> call \<Rightarrow> bool" where
  "writes_record namespace name (CConfigMapsCreate ns n data) = (ns = namespace \<and> n = name)"
| "writes_record namespace name (CConfigMapsDelete ns n) = (ns = namespace \<and> n = name)"
| "writes_record namespace name other = False"

section \<open>The persisted record format\<close>

text \<open>
  The record stores, per pool, the text \<open>{"MinCount": m, "MaxCount": x}\<close> or
  \<open>{"Count": n}\<close>, written with \<open>fmt.Sprintf\<close> and \<open>%d\<close> from \<open>int32\<close> values, and
  read back with \<open>json.Unmarshal\<close> into a \<open>map[string]int\<close>.
\<close>

definition digit_char :: "nat \<Rightarrow> char" where
  "digit_char d = ''0123456789'' ! d"

function show_nat :: "nat \<Rightarrow> string" where
  "show_nat n = (if n < 10 then [digit_char n] else show_nat (n div 10) @ [digit_char (n mod 10)])"
  by pat_completeness auto
termination
  by (relation "measure id") auto

definition show_int :: "int \<Rightarrow> string" where
  "show_int i = (if i < 0 then CHR ''-'' # show_nat (nat (- i)) else show_nat (nat i))"

definition format_MinMax :: "32 word \<Rightarrow> 32 word \<Rightarrow> string" where
  "format_MinMax minCount maxCount =
     ''{\"MinCount\": '' @ show_int (sint minCount) @ '', \"MaxCount\": '' @ show_int (sint maxCount) @ ''}''"

definition format_Count :: "32 word \<Rightarrow> string" where
  "format_Count n = ''{\"Count\": '' @ show_int (sint n) @ ''}''"

text \<open>
  \<open>json.Unmarshal\<close> into a \<open>map[string]int\<close>, as a scanner over the bytes.  The
  decoder accepts white space around every token; the top-level value \<open>null\<close> (the
  map stays nil, which reads as the empty map); an object whose members have decimal
  integer values within \<open>int\<close> (64 bits) or the value \<open>null\<close> (the key is stored
  with 0); of a repeated key the last value stands.  Everything else is an error: text
  that is not JSON, and JSON whose top-level value is not an object or whose member
  values are not integers.  Member names are modelled for printable ASCII without
  escape sequences: a name with a backslash or another byte is reported as an error
  here.  The text of the decoder's error is not modelled.
\<close>

datatype jstate =
    JStart
  | JNull nat
  | JObject
  | JKey string
  | JColon string
  | JValue string
  | JMinus string
  | JZero string
  | JDigits string bool nat
  | JValNull string nat
  | JNext
  | JComma
  | JEnd

definition is_space :: "char \<Rightarrow> bool" where
  "is_space c = (c = CHR '' '' \<or> c = CHR 0x09 \<or> c = CHR 0x0A \<or> c = CHR 0x0D)"

definition digit_value :: "char \<Rightarrow> nat option" where
  "digit_value c = map_of (zip ''0123456789'' [0, 1, 2, 3, 4, 5, 6, 7, 8, 9]) c"

definition key_char :: "char \<Rightarrow> bool" where
  "key_char c = ((32::nat) \<le> of_char c \<and> of_char c < (127::nat) \<and> c \<noteq> CHR 0x22 \<and> c \<noteq> CHR 0x5C)"

definition in_int_range :: "int \<Rightarrow> bool" where
  "in_int_range v = (- (2 ^ 63) \<le> v \<and> v < 2 ^ 63)"

definition signed_value :: "bool \<Rightarrow> nat \<Rightarrow> int" where
  "signed_value negative n = (if negative then - int n else int n)"

text \<open>What follows a complete member value: white space, a comma or the closing brace.\<close>

definition after_value :: "char \<Rightarrow> jstate option" where
  "after_value c =
     (if is_space c then Some JNext
      else if c = CHR '','' then Some JComma
      else if c = CHR ''}'' then Some JEnd
      else None)"

fun json_step :: "jstate \<Rightarrow> (string \<times> int) list \<Rightarrow> char \<Rightarrow> (jstate \<times> (string \<times> int) list) option" where
  "json_step JStart m c =
     (if is_space c then Some (JStart, m)
      else if c = CHR ''{'' then Some (JObject, m)
      else if c = CHR ''n'' then Some (JNull 1, m)
      else None)"
| "json_step (JNull k) m c =
     (if k < 4 \<and> c = ''null'' ! k then Some (if k = 3 then JEnd else JNull (Suc k), m) else None)"
| "json_step JObject m c =
     (if is_space c then Some (JObject, m)
      else if c = CHR ''}'' then Some (JEnd, m)
      else if c = CHR 0x22 then Some (JKey [], m)
      else None)"
| "json_step (JKey cs) m c =
     (if c = CHR 0x22 then Some (JColon (rev cs), m)
      else if key_char c then Some (JKey (c # cs), m)
      else None)"
| "json_step (JColon k) m c =
     (if is_space c then Some (JColon k, m)
      else if c = CHR '':'' then Some (JValue k, m)
      else None)"
| "json_step (JValue k) m c =
     (if is_space c then Some (JValue k, m)
      else if c = CHR ''-'' then Some (JMinus k, m)
      else if c = CHR ''n'' then Some (JValNull k 1, m)
      else (case digit_value c of
              None \<Rightarrow> None
            | Some d \<Rightarrow> if d = 0 then Some (JZero k, m) else Some (JDigits k False d, m)))"
| "json_step (JMinus k) m c =
     (case digit_value c of
        None \<Rightarrow> None
      | Some d \<Rightarrow> if d = 0 then Some (JZero k, m) else Some (JDigits k True d, m))"
| "json_step (JZero k) m c =
     (case after_value c of
        None \<Rightarrow> None
      | Some st \<Rightarrow> Some (st, AList.update k 0 m))"
| "json_step (JDigits k negative n) m c =
     (case digit_value c of
        Some d \<Rightarrow> Some (JDigits k negative (10 * n + d), m)
      | None \<Rightarrow>
          (case after_value c of
             None \<Rightarrow> None
           | Some st \<Rightarrow>
               if in_int_range (signed_value negative n)
               then Some (st, AList.update k (signed_value negative n) m)
               else None))"
| "json_step (JValNull k i) m c =
     (if i < 4 \<and> c = ''null'' ! i
      then Some (if i = 3 then JNext else JValNull k (Suc i), if i = 3 then AList.update k 0 m else m)
      else None)"
| "json_step JNext m c =
     (if is_space c then Some (JNext, m)
      else if c = CHR '','' then Some (JComma, m)
      else if c = CHR ''}'' then Some (JEnd, m)
      else None)"
| "json_step JComma m c =
     (if is_space c then Some (JComma, m)
      else if c = CHR 0x22 then Some (JKey [], m)
      else None)"
| "json_step JEnd m c = (if is_space c then Some (JEnd, m) else None)"

fun json_scan :: "jstate \<Rightarrow> (string \<times> int) list \<Rightarrow> string \<Rightarrow> (string \<times> int) list option" where
  "json_scan st m [] = (if st = JEnd then Some m else None)"
| "json_scan st m (c # cs) =
     (case json_step st m c of
        None \<Rightarrow> None
      | Some (st1, m1) \<Rightarrow> json_scan st1 m1 cs)"

definition json_Unmarshal :: "string \<Rightarrow> error + (string \<times> int) list" where
  "json_Unmarshal text =
     (case json_scan JStart [] text of
        None \<Rightarrow> Inl (Plain ''json: cannot unmarshal'')
      | Some m \<Rightarrow> Inr m)"

text \<open>The conversion \<open>int32(v)\<close> of an \<open>int\<close> keeps the low 32 bits.\<close>

definition int32 :: "int \<Rightarrow> 32 word" where
  "int32 v = word_of_int v"

section \<open>Node pools (internal/nodepool/nodepool_controller.go)\<close>

text \<open>
  The resource group and cluster name every agent pool call passes are read from the
  process environment and are the same in every call; the trace leaves them out.
  Log statements are modelled where they dereference \<open>*Name\<close>: with a nil name they
  panic.
\<close>

definition quoted :: "string \<Rightarrow> string" where
  "quoted s = [CHR 0x27] @ s @ [CHR 0x27]"

definition GetNodePoolByName :: "env \<Rightarrow> string \<Rightarrow> trace \<Rightarrow> (error + AgentPool) \<times> trace" where
  "GetNodePoolByName c nodePoolName tr =
     (case AgentPools_Get c tr nodePoolName of
        Inl err \<Rightarrow>
          (if IsNotFound err then (Inl err, tr @ [CAgentPoolsGet nodePoolName])
           else (Inl (Plain (''unable to get node pool '' @ quoted nodePoolName @ '': '' @ Error_text err)),
                 tr @ [CAgentPoolsGet nodePoolName]))
      | Inr nodePool \<Rightarrow> (Inr nodePool, tr @ [CAgentPoolsGet nodePoolName]))"

text \<open>
  \<open>getNodeImageVersions\<close>: per monitored pool, the image version label of the first
  listed node that carries both labels.
\<close>

fun getNodeImageVersions_items ::
  "string list \<Rightarrow> Node list \<Rightarrow> (string \<times> string) list \<Rightarrow> (string \<times> string) list" where
  "getNodeImageVersions_items nodePoolNames [] nodeImageVersions = nodeImageVersions"
| "getNodeImageVersions_items nodePoolNames (node # items) nodeImageVersions =
     (case map_of (Node_Labels node) ''agentpool'' of
        None \<Rightarrow> getNodeImageVersions_items nodePoolNames items nodeImageVersions
      | Some nodePoolName \<Rightarrow>
          if nodePoolName \<notin> set nodePoolNames
          then getNodeImageVersions_items nodePoolNames items nodeImageVersions
          else (case map_of (Node_Labels node) ''kubernetes.azure.com/node-image-version'' of
                  None \<Rightarrow> getNodeImageVersions_items nodePoolNames items nodeImageVersions
                | Some nodeImageVersion \<Rightarrow>
                    if map_of nodeImageVersions nodePoolName = None
                    then getNodeImageVersions_items nodePoolNames items
                           (nodeImageVersions @ [(nodePoolName, nodeImageVersion)])
                    else getNodeImageVersions_items nodePoolNames items nodeImageVersions))"

definition getNodeImageVersions ::
  "env \<Rightarrow> string list \<Rightarrow> trace \<Rightarrow> (error + (string \<times> string) list) \<times> trace" where
  "getNodeImageVersions c nodePoolNames tr =
     (case Nodes_List c tr of
        Inl err \<Rightarrow> (Inl (Plain (''failed to list nodes: '' @ Error_text err)), tr @ [CNodesList])
      | Inr items \<Rightarrow> (Inr (getNodeImageVersions_items nodePoolNames items []), tr @ [CNodesList]))"

definition getNodePoolUpgradeProfile :: "env \<Rightarrow> string \<Rightarrow> trace \<Rightarrow> (error + string) \<times> trace" where
  "getNodePoolUpgradeProfile c nodePoolName tr =
     (case AgentPools_GetUpgradeProfile c tr nodePoolName of
        Inl err \<Rightarrow>
          (Inl (Plain (''unable to get upgrade profile for node pool '' @ quoted nodePoolName @ '': ''
                       @ Error_text err)),
           tr @ [CAgentPoolsGetUpgradeProfile nodePoolName])
      | Inr (Some (Some LatestNodeImageVersion)) \<Rightarrow>
          (Inr LatestNodeImageVersion, tr @ [CAgentPoolsGetUpgradeProfile nodePoolName])
      | Inr other \<Rightarrow>
          (Inl (Plain (''latest node image version not available for node pool: '' @ nodePoolName)),
           tr @ [CAgentPoolsGetUpgradeProfile nodePoolName]))"

definition GetNodesByNodePool :: "env \<Rightarrow> string \<Rightarrow> trace \<Rightarrow> (error + Node list) \<times> trace" where
  "GetNodesByNodePool c nodePoolName tr =
     (case Nodes_List c tr of
        Inl err \<Rightarrow> (Inl (Plain (''failed to list nodes: '' @ Error_text err)), tr @ [CNodesList])
      | Inr items \<Rightarrow>
          (Inr (filter (\<lambda>node. map_of (Node_Labels node) ''agentpool'' = Some nodePoolName) items),
           tr @ [CNodesList]))"

text \<open>
  \<open>UpdateNeeded\<close>: the loop over the pools that have a node image version; the two
  result maps grow by assignment (\<open>m[k] = v\<close>).
\<close>

fun UpdateNeeded_pools ::
  "env \<Rightarrow> (string \<times> string) list \<Rightarrow> (string \<times> Node) list \<Rightarrow> (string \<times> AgentPool) list \<Rightarrow> trace
   \<Rightarrow> (error + (string \<times> Node) list \<times> (string \<times> AgentPool) list) \<times> trace" where
  "UpdateNeeded_pools c [] outdatedNodes outdatedNodePools tr =
     (Inr (outdatedNodes, outdatedNodePools), tr)"
| "UpdateNeeded_pools c ((nodepoolName, nodeImageVersion) # rest) outdatedNodes outdatedNodePools tr =
     (case getNodePoolUpgradeProfile c nodepoolName tr of
        (Inl err, tr1) \<Rightarrow> (Inl err, tr1)
      | (Inr nodepoolLatestImageVersions, tr1) \<Rightarrow>
          (case GetNodesByNodePool c nodepoolName tr1 of
             (Inl err, tr2) \<Rightarrow> (Inl err, tr2)
           | (Inr nodes, tr2) \<Rightarrow>
               if nodeImageVersion \<noteq> nodepoolLatestImageVersions
               then (case GetNodePoolByName c nodepoolName tr2 of
                       (Inl err, tr3) \<Rightarrow> (Inl err, tr3)
                     | (Inr nodePool, tr3) \<Rightarrow>
                         UpdateNeeded_pools c rest
                           (fold (\<lambda>node m. AList.update (Node_Name node) node m) nodes outdatedNodes)
                           (AList.update nodepoolName nodePool outdatedNodePools) tr3)
               else UpdateNeeded_pools c rest outdatedNodes outdatedNodePools tr2))"

definition UpdateNeeded ::
  "env \<Rightarrow> string list \<Rightarrow> trace
   \<Rightarrow> (error + (string \<times> Node) list \<times> (string \<times> AgentPool) list) \<times> trace" where
  "UpdateNeeded c nodePools tr =
     (case getNodeImageVersions c nodePools tr of
        (Inl err, tr1) \<Rightarrow> (Inl err, tr1)
      | (Inr nodepoolNodeImageVersions, tr1) \<Rightarrow>
          UpdateNeeded_pools c nodepoolNodeImageVersions [] [] tr1)"

text \<open>
  \<open>HasRunningStatefulPods\<close>: true at the first running pod of a listed namespace that
  sits on one of the nodes.
\<close>

fun HasRunningStatefulPods ::
  "env \<Rightarrow> Node list \<Rightarrow> string list \<Rightarrow> trace \<Rightarrow> (error + bool) \<times> trace" where
  "HasRunningStatefulPods c nodes [] tr = (Inr False, tr)"
| "HasRunningStatefulPods c nodes (namespace # namespaces) tr =
     (case Pods_List c tr namespace of
        Inl err \<Rightarrow> (Inl err, tr @ [CPodsList namespace])
      | Inr items \<Rightarrow>
          if list_ex (\<lambda>pod. Phase pod = PodRunning
                             \<and> list_ex (\<lambda>node. NodeName pod = Node_Name node) nodes) items
          then (Inr True, tr @ [CPodsList namespace])
          else HasRunningStatefulPods c nodes namespaces (tr @ [CPodsList namespace]))"

text \<open>
  \<open>CreateTemporaryNodePool\<close>: the new pool's profile takes eleven fields of the source
  pool's; it has no name and no provisioning state of its own.
\<close>

definition clone_profile ::
  "ManagedClusterAgentPoolProfileProperties \<Rightarrow> ManagedClusterAgentPoolProfileProperties" where
  "clone_profile source =
     \<lparr>VMSize = VMSize source, Count = Count source, MinCount = MinCount source,
      MaxCount = MaxCount source, VnetSubnetID = VnetSubnetID source, Mode = Mode source,
      EnableAutoScaling = EnableAutoScaling source,
      OrchestratorVersion = OrchestratorVersion source, NodeLabels = NodeLabels source,
      NodeTaints = NodeTaints source, OSType = OSType source, ProvisioningState = None\<rparr>"

definition CreateTemporaryNodePool :: "env \<Rightarrow> string \<Rightarrow> string \<Rightarrow> trace \<Rightarrow> error option \<times> trace" where
  "CreateTemporaryNodePool c newNodePoolName sourceNodePoolName tr =
     (case AgentPools_Get c tr sourceNodePoolName of
        Inl err \<Rightarrow>
          (Some (Plain (''unable to get source node pool '' @ quoted sourceNodePoolName @ '': ''
                        @ Error_text err)),
           tr @ [CAgentPoolsGet sourceNodePoolName])
      | Inr sourceNodePool \<Rightarrow>
          (case Properties sourceNodePool of
             None \<Rightarrow>
               (Some (Plain (''source node pool '' @ quoted sourceNodePoolName @ '' has no properties'')),
                tr @ [CAgentPoolsGet sourceNodePoolName])
           | Some source \<Rightarrow>
               let newNodePool = \<lparr>AgentPool_Name = None, Properties = Some (clone_profile source)\<rparr>;
                   tr1 = tr @ [CAgentPoolsGet sourceNodePoolName]
               in (case AgentPools_BeginCreateOrUpdate c tr1 newNodePoolName newNodePool of
                     Some err \<Rightarrow>
                       (Some (Plain (''failed to create new node pool '' @ quoted newNodePoolName @ '': ''
                                     @ Error_text err)),
                        tr1 @ [CAgentPoolsBeginCreateOrUpdate newNodePoolName newNodePool])
                   | None \<Rightarrow> (None, tr1 @ [CAgentPoolsBeginCreateOrUpdate newNodePoolName newNodePool]))))"

definition GetNodePoolProvisioningState :: "env \<Rightarrow> string \<Rightarrow> trace \<Rightarrow> (error + string) \<times> trace" where
  "GetNodePoolProvisioningState c nodePoolName tr =
     (case AgentPools_Get c tr nodePoolName of
        Inl err \<Rightarrow>
          (Inl (Plain (''unable to get node pool '' @ quoted nodePoolName @ '': '' @ Error_text err)),
           tr @ [CAgentPoolsGet nodePoolName])
      | Inr nodePool \<Rightarrow>
          (case Properties nodePool of
             None \<Rightarrow>
               (Inl (Plain (''provisioning state not available for node pool: '' @ nodePoolName)),
                tr @ [CAgentPoolsGet nodePoolName])
           | Some props \<Rightarrow>
               (case ProvisioningState props of
                  None \<Rightarrow>
                    (Inl (Plain (''provisioning state not available for node pool: '' @ nodePoolName)),
                     tr @ [CAgentPoolsGet nodePoolName])
                | Some state \<Rightarrow> (Inr state, tr @ [CAgentPoolsGet nodePoolName]))))"

definition NodePoolExists :: "env \<Rightarrow> string \<Rightarrow> trace \<Rightarrow> (error + bool) \<times> trace" where
  "NodePoolExists c nodePoolName tr =
     (case AgentPools_Get c tr nodePoolName of
        Inl err \<Rightarrow>
          (if AsResponseError err = Some 404 then (Inr False, tr @ [CAgentPoolsGet nodePoolName])
           else (Inl (Plain (''error checking if node pool exists: '' @ Error_text err)),
                 tr @ [CAgentPoolsGet nodePoolName]))
      | Inr nodePool \<Rightarrow> (Inr True, tr @ [CAgentPoolsGet nodePoolName]))"

text \<open>
  \<open>UpgradeNodeImageVersion\<close>: its first statement formats \<open>*nodepool.Name\<close>.
\<close>

definition is_upgrading :: "AgentPool \<Rightarrow> bool" where
  "is_upgrading nodepool =
     (case Properties nodepool of
        None \<Rightarrow> False
      | Some props \<Rightarrow>
          (ProvisioningState props = Some ''UpgradingNodeImageVersion''
           \<or> ProvisioningState props = Some ''Updating''))"

definition UpgradeNodeImageVersion :: "env \<Rightarrow> AgentPool \<Rightarrow> trace \<Rightarrow> unit result \<times> trace" where
  "UpgradeNodeImageVersion c nodepool tr =
     (case AgentPool_Name nodepool of
        None \<Rightarrow> (Panic, tr)
      | Some name \<Rightarrow>
          if is_upgrading nodepool then (Ok (), tr)
          else (case getNodeImageVersions c [name] tr of
                  (Inl err, tr1) \<Rightarrow> (Err err, tr1)
                | (Inr nodepoolNodeImageVersions, tr1) \<Rightarrow>
                    (case getNodePoolUpgradeProfile c name tr1 of
                       (Inl err, tr2) \<Rightarrow> (Err err, tr2)
                     | (Inr nodepoolLatestImageVersions, tr2) \<Rightarrow>
                         if map_index nodepoolNodeImageVersions name = nodepoolLatestImageVersions
                         then (Ok (), tr2)
                         else (case AgentPools_BeginUpgradeNodeImageVersion c tr2 name of
                                 Some err \<Rightarrow>
                                   (Err (Plain (''failed to upgrade node image version for node pool ''
                                                @ quoted name @ '': '' @ Error_text err)),
                                    tr2 @ [CAgentPoolsBeginUpgradeNodeImageVersion name])
                               | None \<Rightarrow> (Ok (), tr2 @ [CAgentPoolsBeginUpgradeNodeImageVersion name])))))"

definition RemoveTemporaryNodePool :: "env \<Rightarrow> string \<Rightarrow> trace \<Rightarrow> error option \<times> trace" where
  "RemoveTemporaryNodePool c nodePoolName tr =
     (case AgentPools_BeginDelete c tr nodePoolName of
        Some err \<Rightarrow>
          (Some (Plain (''failed to delete node pool '' @ quoted nodePoolName @ '': '' @ Error_text err)),
           tr @ [CAgentPoolsBeginDelete nodePoolName])
      | None \<Rightarrow> (None, tr @ [CAgentPoolsBeginDelete nodePoolName]))"

text \<open>
  \<open>CordonNodesByAgentPool\<close>: every node of the pool is sent back with the flag set to
  \<open>toCordon\<close>; the first failing update ends the call.
\<close>

fun CordonNodesByAgentPool_nodes :: "env \<Rightarrow> bool \<Rightarrow> Node list \<Rightarrow> trace \<Rightarrow> error option \<times> trace" where
  "CordonNodesByAgentPool_nodes c toCordon [] tr = (None, tr)"
| "CordonNodesByAgentPool_nodes c toCordon (node # nodes) tr =
     (case Nodes_Update c tr (node\<lparr>Unschedulable := toCordon\<rparr>) of
        Some err \<Rightarrow>
          (Some (Plain (''failed to set Unschedulable for node '' @ quoted (Node_Name node) @ '': ''
                        @ Error_text err)),
           tr @ [CNodesUpdate (node\<lparr>Unschedulable := toCordon\<rparr>)])
      | None \<Rightarrow>
          CordonNodesByAgentPool_nodes c toCordon nodes
            (tr @ [CNodesUpdate (node\<lparr>Unschedulable := toCordon\<rparr>)]))"

definition CordonNodesByAgentPool :: "env \<Rightarrow> string \<Rightarrow> bool \<Rightarrow> trace \<Rightarrow> error option \<times> trace" where
  "CordonNodesByAgentPool c nodePoolName toCordon tr =
     (case GetNodesByNodePool c nodePoolName tr of
        (Inl err, tr1) \<Rightarrow>
          (Some (Plain (''failed to get nodes for agent pool '' @ quoted nodePoolName @ '': ''
                        @ Error_text err)), tr1)
      | (Inr nodes, tr1) \<Rightarrow> CordonNodesByAgentPool_nodes c toCordon nodes tr1)"

fun GetNotReadyNodePools_pools ::
  "env \<Rightarrow> string list \<Rightarrow> (string \<times> AgentPool) list \<Rightarrow> trace
   \<Rightarrow> (error + (string \<times> AgentPool) list) \<times> trace" where
  "GetNotReadyNodePools_pools c [] notReadyNodePools tr = (Inr notReadyNodePools, tr)"
| "GetNotReadyNodePools_pools c (nodepoolName # nodepools) notReadyNodePools tr =
     (case GetNodePoolByName c nodepoolName tr of
        (Inl err, tr1) \<Rightarrow>
          (Inl (Plain (''failed to retrieve node pool '' @ quoted nodepoolName @ '': '' @ Error_text err)),
           tr1)
      | (Inr nodePool, tr1) \<Rightarrow>
          (case Properties nodePool of
             None \<Rightarrow> GetNotReadyNodePools_pools c nodepools notReadyNodePools tr1
           | Some props \<Rightarrow>
               (case ProvisioningState props of
                  None \<Rightarrow> GetNotReadyNodePools_pools c nodepools notReadyNodePools tr1
                | Some state \<Rightarrow>
                    if state \<noteq> ''Succeeded''
                    then GetNotReadyNodePools_pools c nodepools
                           (AList.update nodepoolName nodePool notReadyNodePools) tr1
                    else GetNotReadyNodePools_pools c nodepools notReadyNodePools tr1)))"

definition GetNotReadyNodePools ::
  "env \<Rightarrow> string list \<Rightarrow> trace \<Rightarrow> (error + (string \<times> AgentPool) list) \<times> trace" where
  "GetNotReadyNodePools c nodepools tr = GetNotReadyNodePools_pools c nodepools [] tr"

text \<open>
  \<open>DisableAutoScaling\<close>, one pool after the other.  The second guard tests
  \<open>Mode != nil\<close> and then dereferences \<open>ProvisioningState\<close>.  The request carries the
  pool with \<open>EnableAutoScaling\<close> set to false and everything else as it was.  A 409
  answer and any other error both end the loop: the first with success, the second with
  the error.  (The assignment goes through the pool's \<open>Properties\<close> pointer, which the
  caller's map shares; no caller reads \<open>EnableAutoScaling\<close> from the map afterwards.)
\<close>

fun DisableAutoScaling :: "env \<Rightarrow> (string \<times> AgentPool) list \<Rightarrow> trace \<Rightarrow> unit result \<times> trace" where
  "DisableAutoScaling c [] tr = (Ok (), tr)"
| "DisableAutoScaling c ((key, agentPool) # agentPools) tr =
     (case Properties agentPool of
        None \<Rightarrow>
          (case AgentPool_Name agentPool of
             None \<Rightarrow> (Panic, tr)
           | Some name \<Rightarrow> (Err (Plain (''agent pool '' @ quoted name @ '' has no properties'')), tr))
      | Some props \<Rightarrow>
          if Mode props = Some AgentPoolModeSystem
          then (case AgentPool_Name agentPool of
                  None \<Rightarrow> (Panic, tr)
                | Some name \<Rightarrow> DisableAutoScaling c agentPools tr)
          else if Mode props \<noteq> None \<and> ProvisioningState props = None
          then (Panic, tr)
          else if Mode props \<noteq> None \<and> ProvisioningState props \<noteq> Some ''Succeeded''
          then (case AgentPool_Name agentPool of
                  None \<Rightarrow> (Panic, tr)
                | Some name \<Rightarrow> DisableAutoScaling c agentPools tr)
          else (case AgentPool_Name agentPool of
                  None \<Rightarrow> (Panic, tr)
                | Some name \<Rightarrow>
                    (case AgentPools_BeginCreateOrUpdate c tr name
                            (agentPool\<lparr>Properties := Some (props\<lparr>EnableAutoScaling := Some False\<rparr>)\<rparr>) of
                       None \<Rightarrow>
                         DisableAutoScaling c agentPools
                           (tr @ [CAgentPoolsBeginCreateOrUpdate name
                                    (agentPool\<lparr>Properties := Some (props\<lparr>EnableAutoScaling := Some False\<rparr>)\<rparr>)])
                     | Some err \<Rightarrow>
                         if AsResponseError err = Some 409
                         then (Ok (),
                               tr @ [CAgentPoolsBeginCreateOrUpdate name
                                       (agentPool\<lparr>Properties := Some (props\<lparr>EnableAutoScaling := Some False\<rparr>)\<rparr>)])
                         else (Err (Plain (''failed to update autoscaling for agent pool '' @ quoted name
                                           @ '': '' @ Error_text err)),
                               tr @ [CAgentPoolsBeginCreateOrUpdate name
                                       (agentPool\<lparr>Properties := Some (props\<lparr>EnableAutoScaling := Some False\<rparr>)\<rparr>)]))))"

text \<open>
  \<open>SetDefaultScaling\<close>.  Lines 459 to 474, the request and the reading of its answer,
  are \<open>SetDefaultScaling_apply\<close>; all three branches of the decision on the decoded
  record reach it unless they returned before: the branch for a record with neither
  \<open>MinCount\<close> and \<open>MaxCount\<close> nor \<open>Count\<close> logs an error and goes on to the request
  with the pool as it was read.
\<close>

definition SetDefaultScaling_apply :: "env \<Rightarrow> string \<Rightarrow> AgentPool \<Rightarrow> trace \<Rightarrow> unit result \<times> trace" where
  "SetDefaultScaling_apply c name nodepool tr =
     (case AgentPools_BeginCreateOrUpdate c tr name nodepool of
        None \<Rightarrow> (Ok (), tr @ [CAgentPoolsBeginCreateOrUpdate name nodepool])
      | Some err \<Rightarrow>
          if AsResponseError err = Some 409
          then (Ok (), tr @ [CAgentPoolsBeginCreateOrUpdate name nodepool])
          else (Err (Plain (''failed to update scaling for node pool '' @ quoted name @ '': ''
                            @ Error_text err)),
                tr @ [CAgentPoolsBeginCreateOrUpdate name nodepool]))"

text \<open>\<open>v, ok := m[k]\<close>: the zero value when the key is absent.\<close>

definition int_index :: "(string \<times> int) list \<Rightarrow> string \<Rightarrow> int" where
  "int_index m k = (case map_of m k of None \<Rightarrow> 0 | Some v \<Rightarrow> v)"

definition has_key :: "(string \<times> int) list \<Rightarrow> string \<Rightarrow> bool" where
  "has_key m k = (map_of m k \<noteq> None)"

definition SetDefaultScaling_decide ::
  "env \<Rightarrow> string \<Rightarrow> AgentPool \<Rightarrow> (string \<times> int) list \<Rightarrow> trace \<Rightarrow> unit result \<times> trace" where
  "SetDefaultScaling_decide c name nodepool scalingConfig tr =
     (let minCount = int_index scalingConfig ''MinCount'';
          maxCount = int_index scalingConfig ''MaxCount'';
          count = int_index scalingConfig ''Count''
      in
      if has_key scalingConfig ''MinCount'' \<and> has_key scalingConfig ''MaxCount''
      then (case Properties nodepool of
              None \<Rightarrow> (Panic, tr)
            | Some props \<Rightarrow>
                if EnableAutoScaling props = Some True
                   \<and> MinCount props = Some (int32 minCount)
                   \<and> MaxCount props = Some (int32 maxCount)
                then (Ok (), tr)
                else SetDefaultScaling_apply c name
                       (nodepool\<lparr>Properties := Some (props
                          \<lparr>EnableAutoScaling := Some True,
                           MinCount := Some (int32 minCount),
                           MaxCount := Some (int32 maxCount)\<rparr>)\<rparr>) tr)
      else if has_key scalingConfig ''Count''
      then (case Properties nodepool of
              None \<Rightarrow> (Panic, tr)
            | Some props \<Rightarrow>
                if EnableAutoScaling props = Some False \<and> Count props = Some (int32 count)
                then (Ok (), tr)
                else SetDefaultScaling_apply c name
                       (nodepool\<lparr>Properties := Some (props
                          \<lparr>EnableAutoScaling := Some False,
                           Count := Some (int32 count)\<rparr>)\<rparr>) tr)
      else SetDefaultScaling_apply c name nodepool tr)"

text \<open>Lines 412 to 457: the name is formatted for the log, then the record is decoded.\<close>

definition SetDefaultScaling_parse :: "env \<Rightarrow> AgentPool \<Rightarrow> string \<Rightarrow> trace \<Rightarrow> unit result \<times> trace" where
  "SetDefaultScaling_parse c nodepool scalingData tr =
     (case AgentPool_Name nodepool of
        None \<Rightarrow> (Panic, tr)
      | Some name \<Rightarrow>
          (case json_Unmarshal scalingData of
             Inl err \<Rightarrow> (Err (Plain (''failed to parse scalingData JSON: '' @ Error_text err)), tr)
           | Inr scalingConfig \<Rightarrow> SetDefaultScaling_decide c name nodepool scalingConfig tr))"

definition SetDefaultScaling :: "env \<Rightarrow> AgentPool \<Rightarrow> string \<Rightarrow> trace \<Rightarrow> unit result \<times> trace" where
  "SetDefaultScaling c nodepool scalingData tr =
     (case Properties nodepool of
        None \<Rightarrow> SetDefaultScaling_parse c nodepool scalingData tr
      | Some props \<Rightarrow>
          if Mode props \<noteq> None
          then (case ProvisioningState props of
                  None \<Rightarrow> (Panic, tr)
                | Some state \<Rightarrow>
                    if state \<noteq> ''Succeeded''
                    then (case AgentPool_Name nodepool of
                            None \<Rightarrow> (Panic, tr)
                          | Some name \<Rightarrow>
                              (Err (Plain (''node pool '' @ quoted name
                                           @ '' is still updating with provisioning state '' @ quoted state)),
                               tr))
                    else SetDefaultScaling_parse c nodepool scalingData tr)
          else SetDefaultScaling_parse c nodepool scalingData tr)"

text \<open>
  The spec's words for \<open>DisableAutoscaling\<close>.  A pool is \<open>usable\<close> when the fields
  the control plane always returns are set: its name, its properties, its mode and its
  provisioning state.  \<open>to_disable\<close> is "non-system and Succeeded";
  \<open>disable_request\<close> is the update that turns autoscaling off and changes nothing
  else; \<open>disable_in_turn\<close> submits the requests in order until one fails, a 409
  ending the call with success and any other error with an error.
\<close>

definition usable :: "AgentPool \<Rightarrow> bool" where
  "usable pool =
     (AgentPool_Name pool \<noteq> None
      \<and> (case Properties pool of
           None \<Rightarrow> False
         | Some props \<Rightarrow> Mode props \<noteq> None \<and> ProvisioningState props \<noteq> None))"

definition to_disable :: "AgentPool \<Rightarrow> bool" where
  "to_disable pool =
     (case Properties pool of
        None \<Rightarrow> False
      | Some props \<Rightarrow> Mode props \<noteq> Some AgentPoolModeSystem \<and> ProvisioningState props = Some ''Succeeded'')"

definition autoscaling_off :: "AgentPool \<Rightarrow> AgentPool" where
  "autoscaling_off pool =
     pool\<lparr>Properties := map_option (\<lambda>props. props\<lparr>EnableAutoScaling := Some False\<rparr>) (Properties pool)\<rparr>"

definition name_of :: "AgentPool \<Rightarrow> string" where
  "name_of pool = (case AgentPool_Name pool of None \<Rightarrow> '''' | Some name \<Rightarrow> name)"

definition disable_request :: "AgentPool \<Rightarrow> call" where
  "disable_request pool = CAgentPoolsBeginCreateOrUpdate (name_of pool) (autoscaling_off pool)"

fun disable_in_turn :: "env \<Rightarrow> AgentPool list \<Rightarrow> trace \<Rightarrow> unit result \<times> trace" where
  "disable_in_turn c [] tr = (Ok (), tr)"
| "disable_in_turn c (pool # pools) tr =
     (case AgentPools_BeginCreateOrUpdate c tr (name_of pool) (autoscaling_off pool) of
        None \<Rightarrow> disable_in_turn c pools (tr @ [disable_request pool])
      | Some err \<Rightarrow>
          (if AsResponseError err = Some 409 then Ok ()
           else Err (Plain (''failed to update autoscaling for agent pool '' @ quoted (name_of pool)
                            @ '': '' @ Error_text err)),
           tr @ [disable_request pool]))"

section \<open>The reconciler (internal/controller/safeevict_controller.go)\<close>

record Config =
  ErrorReconcileTime :: int
  SuccessReconcileTime :: int
  UpgradeFrequency :: int

record Request =
  Request_Namespace :: string
  Request_Name :: string

record Result =
  RequeueAfter :: int

definition requeue :: "int \<Rightarrow> error option \<Rightarrow> Result \<times> error option" where
  "requeue after err = (\<lparr>RequeueAfter = after\<rparr>, err)"

text \<open>
  \<open>Reconcile\<close> is one long function with many \<open>return\<close> statements.  Its steps are
  modelled one by one; a step either falls through to the next statement (with a value,
  when later statements use one), or returns from \<open>Reconcile\<close>, or panics.
\<close>

datatype ('v, 'r) flow = Next 'v | Return 'r | Panicked

definition and_then ::
  "(trace \<Rightarrow> ('v, 'r) flow \<times> trace) \<Rightarrow> ('v \<Rightarrow> trace \<Rightarrow> ('w, 'r) flow \<times> trace)
   \<Rightarrow> trace \<Rightarrow> ('w, 'r) flow \<times> trace" where
  "and_then step rest tr =
     (case step tr of
        (Next v, tr1) \<Rightarrow> rest v tr1
      | (Return r, tr1) \<Rightarrow> (Return r, tr1)
      | (Panicked, tr1) \<Rightarrow> (Panicked, tr1))"

definition filterPodsOnNodes :: "Pod list \<Rightarrow> Node list \<Rightarrow> Pod list" where
  "filterPodsOnNodes safeToEvictPods outdatedNodes =
     filter (\<lambda>pod. list_ex (\<lambda>node. NodeName pod = Node_Name node) outdatedNodes) safeToEvictPods"

fun performSafeEviction_pools ::
  "env \<Rightarrow> SafeEvictSpec \<Rightarrow> string list \<Rightarrow> trace \<Rightarrow> unit result \<times> trace" where
  "performSafeEviction_pools c spec [] tr = (Ok (), tr)"
| "performSafeEviction_pools c spec (poolName # poolNames) tr =
     (case CordonNodesByAgentPool c poolName True tr of
        (Some err, tr1) \<Rightarrow> (Err err, tr1)
      | (None, tr1) \<Rightarrow>
          (case GetSafeToEvictPods c spec tr1 of
             (Inl err, tr2) \<Rightarrow> (Err err, tr2)
           | (Inr safeToEvictPods, tr2) \<Rightarrow>
               (case GetNodesByNodePool c poolName tr2 of
                  (Inl err, tr3) \<Rightarrow> (Err err, tr3)
                | (Inr nodes, tr3) \<Rightarrow>
                    (case EvictIdlePods c (filterPodsOnNodes safeToEvictPods nodes) tr3 of
                       (Some err, tr4) \<Rightarrow> (Err err, tr4)
                     | (None, tr4) \<Rightarrow> performSafeEviction_pools c spec poolNames tr4))))"

definition performSafeEviction ::
  "env \<Rightarrow> (string \<times> AgentPool) list \<Rightarrow> SafeEvict \<Rightarrow> trace \<Rightarrow> unit result \<times> trace" where
  "performSafeEviction c outdatedNodePools safeEvict tr =
     (case DisableAutoScaling c outdatedNodePools tr of
        (Ok u, tr1) \<Rightarrow> performSafeEviction_pools c (Spec safeEvict) (map fst outdatedNodePools) tr1
      | (Err err, tr1) \<Rightarrow> (Err err, tr1)
      | (Panic, tr1) \<Rightarrow> (Panic, tr1))"

text \<open>
  Lines 73 to 110: the campaign is read, what is outdated is computed (the pools that
  are not ready are assigned into the map of outdated pools), and the temporary pool is
  looked up.  The values the later statements use are the campaign, the outdated nodes,
  the outdated pools and whether the temporary pool exists.
\<close>

definition Reconcile_observe ::
  "env \<Rightarrow> Config \<Rightarrow> Request \<Rightarrow> trace
   \<Rightarrow> (SafeEvict \<times> (string \<times> Node) list \<times> (string \<times> AgentPool) list \<times> bool, Result \<times> error option) flow
      \<times> trace" where
  "Reconcile_observe c cfg req tr =
     (case Client_Get c tr (Request_Namespace req) (Request_Name req) of
        Inl err \<Rightarrow>
          (Return (requeue (ErrorReconcileTime cfg) (if IsNotFound err then None else Some err)),
           tr @ [CClientGet (Request_Namespace req) (Request_Name req)])
      | Inr safeEvict \<Rightarrow>
          (case UpdateNeeded c (Nodepools (Spec safeEvict))
                  (tr @ [CClientGet (Request_Namespace req) (Request_Name req)]) of
             (Inl err, tr1) \<Rightarrow> (Return (requeue (ErrorReconcileTime cfg) None), tr1)
           | (Inr (outdatedNodes, updatePools), tr1) \<Rightarrow>
               (case GetNotReadyNodePools c (Nodepools (Spec safeEvict)) tr1 of
                  (Inl err, tr2) \<Rightarrow> (Return (requeue (ErrorReconcileTime cfg) (Some err)), tr2)
                | (Inr notReadyPools, tr2) \<Rightarrow>
                    (case NodePoolExists c (GetTemporaryNodepoolName safeEvict) tr2 of
                       (Inl err, tr3) \<Rightarrow> (Return (requeue (ErrorReconcileTime cfg) (Some err)), tr3)
                     | (Inr temporaryNodepoolExists, tr3) \<Rightarrow>
                         (Next (safeEvict, outdatedNodes,
                                fold (\<lambda>(poolName, pool) m. AList.update poolName pool m)
                                  notReadyPools updatePools,
                                temporaryNodepoolExists), tr3)))))"

text \<open>Lines 112 to 130: the temporary pool does not exist.\<close>

definition Reconcile_temporary ::
  "env \<Rightarrow> Config \<Rightarrow> Request \<Rightarrow> SafeEvict \<Rightarrow> (string \<times> Node) list \<Rightarrow> (string \<times> AgentPool) list \<Rightarrow> bool
   \<Rightarrow> trace \<Rightarrow> (unit, Result \<times> error option) flow \<times> trace" where
  "Reconcile_temporary c cfg req safeEvict outdatedNodes outdatedNodePools temporaryNodepoolExists tr =
     (if \<not> temporaryNodepoolExists
      then
        if length outdatedNodes = 0 \<and> length outdatedNodePools = 0
        then (case DeleteConfigMap c (Request_Namespace req) (GetConfigmapName safeEvict) tr of
                (Some err, tr1) \<Rightarrow> (Return (requeue (ErrorReconcileTime cfg) (Some err)), tr1)
              | (None, tr1) \<Rightarrow> (Return (requeue (UpgradeFrequency cfg) None), tr1))
        else (case CreateTemporaryNodePool c (GetTemporaryNodepoolName safeEvict)
                     (BaseForBackupPool (Spec safeEvict)) tr of
                (Some err, tr1) \<Rightarrow> (Return (requeue (ErrorReconcileTime cfg) None), tr1)
              | (None, tr1) \<Rightarrow> (Next (), tr1))
      else (Next (), tr))"

text \<open>Lines 132 to 141: the temporary pool is still being created.\<close>

definition Reconcile_creating ::
  "env \<Rightarrow> Config \<Rightarrow> SafeEvict \<Rightarrow> trace \<Rightarrow> (unit, Result \<times> error option) flow \<times> trace" where
  "Reconcile_creating c cfg safeEvict tr =
     (case GetNodePoolProvisioningState c (GetTemporaryNodepoolName safeEvict) tr of
        (Inl err, tr1) \<Rightarrow> (Return (requeue (ErrorReconcileTime cfg) (Some err)), tr1)
      | (Inr status, tr1) \<Rightarrow>
          if status = ''Creating''
          then (Return (requeue (SuccessReconcileTime cfg) None), tr1)
          else (Next (), tr1))"

text \<open>
  Lines 143 to 164: the scaling-state record is read; when it is not found, one entry per
  outdated pool is formatted and the record is created.  \<open>pool.Properties.MinCount\<close>
  dereferences \<open>Properties\<close>; the branch for a set \<open>MinCount\<close> or \<open>MaxCount\<close>
  dereferences both, the other branch dereferences \<open>Count\<close>.  After the creation the
  variable \<open>configMapData\<close> still holds the nil map of the failed read.
\<close>

fun scaling_snapshot ::
  "(string \<times> AgentPool) list \<Rightarrow> (string \<times> string) list \<Rightarrow> (string \<times> string) list option" where
  "scaling_snapshot [] configData = Some configData"
| "scaling_snapshot ((poolName, pool) # pools) configData =
     (case Properties pool of
        None \<Rightarrow> None
      | Some props \<Rightarrow>
          if MinCount props = None \<and> MaxCount props = None
          then (case Count props of
                  None \<Rightarrow> None
                | Some n \<Rightarrow> scaling_snapshot pools (AList.update poolName (format_Count n) configData))
          else (case MinCount props of
                  None \<Rightarrow> None
                | Some minCount \<Rightarrow>
                    (case MaxCount props of
                       None \<Rightarrow> None
                     | Some maxCount \<Rightarrow>
                         scaling_snapshot pools
                           (AList.update poolName (format_MinMax minCount maxCount) configData))))"

definition Reconcile_record ::
  "env \<Rightarrow> Config \<Rightarrow> Request \<Rightarrow> SafeEvict \<Rightarrow> (string \<times> AgentPool) list \<Rightarrow> trace
   \<Rightarrow> ((string \<times> string) list, Result \<times> error option) flow \<times> trace" where
  "Reconcile_record c cfg req safeEvict outdatedNodePools tr =
     (case GetConfigMapData c (Request_Namespace req) (GetConfigmapName safeEvict) tr of
        (Inr configMapData, tr1) \<Rightarrow> (Next configMapData, tr1)
      | (Inl err, tr1) \<Rightarrow>
          if IsNotFound err
          then (case scaling_snapshot outdatedNodePools [] of
                  None \<Rightarrow> (Panicked, tr1)
                | Some configData \<Rightarrow>
                    (case CreateConfigMap c (Request_Namespace req) (GetConfigmapName safeEvict)
                            configData tr1 of
                       (Some err1, tr2) \<Rightarrow> (Return (requeue (ErrorReconcileTime cfg) (Some err1)), tr2)
                     | (None, tr2) \<Rightarrow> (Next [], tr2)))
          else (Return (requeue (ErrorReconcileTime cfg) (Some err)), tr1))"

text \<open>Lines 166 to 172.\<close>

definition Reconcile_evict ::
  "env \<Rightarrow> Config \<Rightarrow> SafeEvict \<Rightarrow> (string \<times> AgentPool) list \<Rightarrow> trace
   \<Rightarrow> (unit, Result \<times> error option) flow \<times> trace" where
  "Reconcile_evict c cfg safeEvict outdatedNodePools tr =
     (case performSafeEviction c outdatedNodePools safeEvict tr of
        (Err err, tr1) \<Rightarrow> (Return (requeue (ErrorReconcileTime cfg) (Some err)), tr1)
      | (Panic, tr1) \<Rightarrow> (Panicked, tr1)
      | (Ok u, tr1) \<Rightarrow> (Next (), tr1))"

text \<open>Lines 174 to 215: the loop over the monitored pools.\<close>

definition is_state :: "AgentPool \<Rightarrow> string \<Rightarrow> bool" where
  "is_state nodepool state =
     (case Properties nodepool of
        None \<Rightarrow> False
      | Some props \<Rightarrow> ProvisioningState props = Some state)"

fun Reconcile_upgrade ::
  "env \<Rightarrow> Config \<Rightarrow> SafeEvict \<Rightarrow> string list \<Rightarrow> trace \<Rightarrow> (unit, Result \<times> error option) flow \<times> trace" where
  "Reconcile_upgrade c cfg safeEvict [] tr = (Next (), tr)"
| "Reconcile_upgrade c cfg safeEvict (nodepoolName # nodepools) tr =
     (case GetNodesByNodePool c nodepoolName tr of
        (Inl err, tr1) \<Rightarrow> (Return (requeue (ErrorReconcileTime cfg) (Some err)), tr1)
      | (Inr nodes, tr1) \<Rightarrow>
          (case HasRunningStatefulPods c nodes (Namespaces (Spec safeEvict)) tr1 of
             (Inl err, tr2) \<Rightarrow> (Return (requeue (ErrorReconcileTime cfg) (Some err)), tr2)
           | (Inr hasRunningPods, tr2) \<Rightarrow>
               if \<not> hasRunningPods
               then (case GetNodePoolByName c nodepoolName tr2 of
                       (Inl err, tr3) \<Rightarrow> (Return (requeue (ErrorReconcileTime cfg) (Some err)), tr3)
                     | (Inr nodepool, tr3) \<Rightarrow>
                         if is_state nodepool ''UpgradingNodeImageVersion''
                         then (case AgentPool_Name nodepool of
                                 None \<Rightarrow> (Panicked, tr3)
                               | Some name \<Rightarrow> (Return (requeue (SuccessReconcileTime cfg) None), tr3))
                         else (case UpgradeNodeImageVersion c nodepool tr3 of
                                 (Err err, tr4) \<Rightarrow> (Return (requeue (ErrorReconcileTime cfg) (Some err)), tr4)
                               | (Panic, tr4) \<Rightarrow> (Panicked, tr4)
                               | (Ok u, tr4) \<Rightarrow> Reconcile_upgrade c cfg safeEvict nodepools tr4))
               else Reconcile_upgrade c cfg safeEvict nodepools tr2))"

text \<open>
  Lines 218 to 241: the loop over the pools named in the scaling-state record.  The
  result of \<open>CordonNodesByAgentPool\<close> is not looked at.
\<close>

fun Reconcile_restore ::
  "env \<Rightarrow> Config \<Rightarrow> (string \<times> AgentPool) list \<Rightarrow> (string \<times> string) list \<Rightarrow> string list \<Rightarrow> trace
   \<Rightarrow> (unit, Result \<times> error option) flow \<times> trace" where
  "Reconcile_restore c cfg outdatedNodePools configMapData [] tr = (Next (), tr)"
| "Reconcile_restore c cfg outdatedNodePools configMapData (nodepoolName # names) tr =
     (if map_of outdatedNodePools nodepoolName = None
      then (case GetNodePoolByName c nodepoolName tr of
              (Inl err, tr1) \<Rightarrow> (Return (requeue (ErrorReconcileTime cfg) (Some err)), tr1)
            | (Inr nodepool, tr1) \<Rightarrow>
                (case SetDefaultScaling c nodepool (map_index configMapData nodepoolName) tr1 of
                   (Err err, tr2) \<Rightarrow>
                     if is_state nodepool ''Updating''
                     then (case AgentPool_Name nodepool of
                             None \<Rightarrow> (Panicked, tr2)
                           | Some name \<Rightarrow> (Return (requeue (SuccessReconcileTime cfg) None), tr2))
                     else (Return (requeue (ErrorReconcileTime cfg) (Some err)), tr2)
                 | (Panic, tr2) \<Rightarrow> (Panicked, tr2)
                 | (Ok u, tr2) \<Rightarrow>
                     (case CordonNodesByAgentPool c nodepoolName False tr2 of
                        (ignored, tr3) \<Rightarrow>
                          Reconcile_restore c cfg outdatedNodePools configMapData names tr3)))
      else Reconcile_restore c cfg outdatedNodePools configMapData names tr)"

text \<open>
  Lines 243 to 299: nothing is outdated, the temporary pool is drained and removed.  A
  NotFound error of the read passes the check of line 246 and leaves a nil pool, which
  line 252 dereferences.  The result of the eviction on the temporary pool is not looked
  at.
\<close>

definition Reconcile_cleanup ::
  "env \<Rightarrow> Config \<Rightarrow> Request \<Rightarrow> SafeEvict \<Rightarrow> (string \<times> Node) list \<Rightarrow> (string \<times> AgentPool) list
   \<Rightarrow> trace \<Rightarrow> (unit, Result \<times> error option) flow \<times> trace" where
  "Reconcile_cleanup c cfg req safeEvict outdatedNodes outdatedNodePools tr =
     (if length outdatedNodes = 0 \<and> length outdatedNodePools = 0
      then (case GetNodePoolByName c (GetTemporaryNodepoolName safeEvict) tr of
              (Inl err, tr1) \<Rightarrow>
                if IsNotFound err then (Panicked, tr1)
                else (Return (requeue (ErrorReconcileTime cfg) (Some err)), tr1)
            | (Inr temporaryNodepool, tr1) \<Rightarrow>
                (case AgentPool_Name temporaryNodepool of
                   None \<Rightarrow> (Panicked, tr1)
                 | Some name \<Rightarrow>
                     (case DisableAutoScaling c [(name, temporaryNodepool)] tr1 of
                        (Err err, tr2) \<Rightarrow> (Return (requeue (ErrorReconcileTime cfg) (Some err)), tr2)
                      | (Panic, tr2) \<Rightarrow> (Panicked, tr2)
                      | (Ok u, tr2) \<Rightarrow>
                          (case GetNodesByNodePool c name tr2 of
                             (Inl err, tr3) \<Rightarrow> (Return (requeue (ErrorReconcileTime cfg) (Some err)), tr3)
                           | (Inr temporaryNodes, tr3) \<Rightarrow>
                               (case performSafeEviction c [(name, temporaryNodepool)] safeEvict tr3 of
                                  (Panic, tr4) \<Rightarrow> (Panicked, tr4)
                                | (ignored, tr4) \<Rightarrow>
                                    (case HasRunningStatefulPods c temporaryNodes
                                            (Namespaces (Spec safeEvict)) tr4 of
                                       (Inl err, tr5) \<Rightarrow>
                                         (Return (requeue (ErrorReconcileTime cfg) (Some err)), tr5)
                                     | (Inr hasRunningPods, tr5) \<Rightarrow>
                                         if \<not> hasRunningPods
                                         then (case RemoveTemporaryNodePool c
                                                      (GetTemporaryNodepoolName safeEvict) tr5 of
                                                 (Some err, tr6) \<Rightarrow>
                                                   (Return (requeue (ErrorReconcileTime cfg) None), tr6)
                                               | (None, tr6) \<Rightarrow>
                                                   (case DeleteConfigMap c (Request_Namespace req)
                                                           (GetConfigmapName safeEvict) tr6 of
                                                      (Some err, tr7) \<Rightarrow>
                                                        (Return (requeue (ErrorReconcileTime cfg) (Some err)), tr7)
                                                    | (None, tr7) \<Rightarrow> (Next (), tr7)))
                                         else (Next (), tr5)))))))
      else (Next (), tr))"

text \<open>Lines 112 to 303, from the check of the temporary pool to the last \<open>return\<close>.\<close>

definition Reconcile_steps ::
  "env \<Rightarrow> Config \<Rightarrow> Request \<Rightarrow> SafeEvict \<Rightarrow> (string \<times> Node) list \<Rightarrow> (string \<times> AgentPool) list \<Rightarrow> bool
   \<Rightarrow> trace \<Rightarrow> (unit, Result \<times> error option) flow \<times> trace" where
  "Reconcile_steps c cfg req safeEvict outdatedNodes outdatedNodePools temporaryNodepoolExists =
     and_then (Reconcile_temporary c cfg req safeEvict outdatedNodes outdatedNodePools
                 temporaryNodepoolExists)
       (\<lambda>u. and_then (Reconcile_creating c cfg safeEvict)
       (\<lambda>u. and_then (Reconcile_record c cfg req safeEvict outdatedNodePools)
       (\<lambda>configMapData. and_then (Reconcile_evict c cfg safeEvict outdatedNodePools)
       (\<lambda>u. and_then (Reconcile_upgrade c cfg safeEvict (Nodepools (Spec safeEvict)))
       (\<lambda>u. and_then (Reconcile_restore c cfg outdatedNodePools configMapData (map fst configMapData))
       (\<lambda>u. Reconcile_cleanup c cfg req safeEvict outdatedNodes outdatedNodePools))))))"

text \<open>
  \<open>Reconcile\<close>: the steps in order; falling through all of them is the last
  \<open>return\<close>, of line 302.
\<close>

definition Reconcile ::
  "env \<Rightarrow> Config \<Rightarrow> Request \<Rightarrow> trace \<Rightarrow> (Result \<times> error option) result \<times> trace" where
  "Reconcile c cfg req tr =
     (case and_then (Reconcile_observe c cfg req)
             (\<lambda>(safeEvict, outdatedNodes, outdatedNodePools, temporaryNodepoolExists).
                Reconcile_steps c cfg req safeEvict outdatedNodes outdatedNodePools
                  temporaryNodepoolExists) tr of
        (Return r, tr1) \<Rightarrow> (Ok r, tr1)
      | (Panicked, tr1) \<Rightarrow> (Panic, tr1)
      | (Next u, tr1) \<Rightarrow> (Ok (requeue (SuccessReconcileTime cfg) None), tr1))"

text \<open>
  The spec's three requeue delays: the short error-retry delay and the short
  progress-retry delay are the two short ones, the steady-state delay is the long one.
\<close>

definition short_delay :: "Config \<Rightarrow> Result \<times> error option \<Rightarrow> bool" where
  "short_delay cfg r =
     (RequeueAfter (fst r) = ErrorReconcileTime cfg \<or> RequeueAfter (fst r) = SuccessReconcileTime cfg)"

section \<open>Example inputs\<close>

definition campaign :: SafeEvict where
  "campaign = \<lparr>SafeEvict_Name = ''upgrade'',
      Spec = \<lparr>LabelSelector = [(''state'', ''busy''), (''tier'', ''agent'')],
               LastLogLines = [''Listening for Jobs''],
               Nodepools = [''poolA''],
               Namespaces = [''agents''],
               BaseForBackupPool = ''workerpool01''\<rparr>\<rparr>"

text \<open>
  A small world: one idle agent pod in the monitored namespace, one pod with the same
  log in a namespace that is not monitored, one node of pool poolA.  Every call of the
  world succeeds and ignores the trace.
\<close>

definition pod_idle :: Pod where
  "pod_idle = \<lparr>Pod_Name = ''agent-1'', Pod_Namespace = ''agents'',
      Pod_Labels = [(''tier'', ''build'')],
      OwnerReferences = [\<lparr>Kind = ''Job'', OwnerReference_Name = ''job-1''\<rparr>],
      Containers = [\<lparr>Env = [\<lparr>EnvVar_Name = ''AZP_POOL'', Value = ''ado-pool''\<rparr>]\<rparr>],
      NodeName = ''node-a'', Phase = ''Running''\<rparr>"

definition pod_system :: Pod where
  "pod_system = \<lparr>Pod_Name = ''dns-1'', Pod_Namespace = ''kube-system'',
      Pod_Labels = [],
      OwnerReferences = [],
      Containers = [],
      NodeName = ''node-a'', Phase = ''Running''\<rparr>"

definition node_a :: Node where
  "node_a = \<lparr>Node_Name = ''node-a'',
      Node_Labels = [(''agentpool'', ''poolA''), (''kubernetes.azure.com/node-image-version'', ''v1'')],
      Unschedulable = False\<rparr>"

definition pool_props :: ManagedClusterAgentPoolProfileProperties where
  "pool_props = \<lparr>VMSize = Some ''Standard_D4s_v3'', Count = Some 3, MinCount = Some 2,
      MaxCount = Some 5, VnetSubnetID = None, Mode = Some ''User'',
      EnableAutoScaling = Some True, OrchestratorVersion = Some ''1.30.0'',
      NodeLabels = [], NodeTaints = [], OSType = Some ''Linux'',
      ProvisioningState = Some ''Succeeded''\<rparr>"

definition pool_A :: AgentPool where
  "pool_A = \<lparr>AgentPool_Name = Some ''poolA'', Properties = Some pool_props\<rparr>"

definition world :: env where
  "world = \<lparr>
     Client_Get = (\<lambda>tr namespace name. Inr campaign),
     Nodes_List = (\<lambda>tr. Inr [node_a]),
     Nodes_Update = (\<lambda>tr node. None),
     Pods_List = (\<lambda>tr namespace. Inr [pod_system, pod_idle]),
     Pods_Get = (\<lambda>tr namespace name. Inr pod_idle),
     Pods_GetLogs = (\<lambda>tr namespace name. Inr (Inr ''Connected. Listening for Jobs'')),
     Pods_Delete = (\<lambda>tr namespace name. None),
     Jobs_Delete = (\<lambda>tr namespace name. None),
     ConfigMaps_Get = (\<lambda>tr namespace name. Inr [(''poolA'', ''{\"MinCount\": 2, \"MaxCount\": 5}'')]),
     ConfigMaps_Create = (\<lambda>tr namespace name data. None),
     ConfigMaps_Delete = (\<lambda>tr namespace name. None),
     AgentPools_Get = (\<lambda>tr name. Inr pool_A),
     AgentPools_BeginCreateOrUpdate = (\<lambda>tr name pool. None),
     AgentPools_BeginDelete = (\<lambda>tr name. None),
     AgentPools_GetUpgradeProfile = (\<lambda>tr name. Inr (Some (Some ''v2''))),
     AgentPools_BeginUpgradeNodeImageVersion = (\<lambda>tr name. None),
     Devops_DisableAgent = (\<lambda>tr poolName agentName. None),
     Devops_RemoveAgent = (\<lambda>tr poolName agentName. None)\<rparr>"

text \<open>
  A pod owned by a replica set and by a job, in that order, whose pool variable is the
  second of its environment; the API answers every pod read with it.
\<close>

definition pod_two :: Pod where
  "pod_two = \<lparr>Pod_Name = ''agent-2'', Pod_Namespace = ''agents'',
      Pod_Labels = [(''tier'', ''build'')],
      OwnerReferences = [\<lparr>Kind = ''ReplicaSet'', OwnerReference_Name = ''rs-1''\<rparr>,
                         \<lparr>Kind = ''Job'', OwnerReference_Name = ''job-2''\<rparr>],
      Containers = [\<lparr>Env = [\<lparr>EnvVar_Name = ''HOME'', Value = ''/root''\<rparr>,
                             \<lparr>EnvVar_Name = ''AZP_POOL'', Value = ''ado-pool''\<rparr>]\<rparr>],
      NodeName = ''node-a'', Phase = ''Running''\<rparr>"

definition world_two :: env where
  "world_two = world\<lparr>Pods_Get := (\<lambda>tr namespace name. Inr pod_two)\<rparr>"

definition world_remove_fails :: env where
  "world_remove_fails = world\<lparr>Devops_RemoveAgent := (\<lambda>tr poolName agentName. Some (Plain ''agent not found''))\<rparr>"

definition world_no_record :: env where
  "world_no_record = world\<lparr>ConfigMaps_Get := (\<lambda>tr namespace name. Inl (APIStatus ''NotFound'' ''configmaps not found''))\<rparr>"

definition pool_B :: AgentPool where
  "pool_B = \<lparr>AgentPool_Name = Some ''poolB'', Properties = Some pool_props\<rparr>"

definition pool_system :: AgentPool where
  "pool_system = \<lparr>AgentPool_Name = Some ''system'', Properties = Some (pool_props\<lparr>Mode := Some ''System''\<rparr>)\<rparr>"

definition world_conflict :: env where
  "world_conflict = world\<lparr>AgentPools_BeginCreateOrUpdate := (\<lambda>tr name pool. Some (ResponseError 409 ''Conflict''))\<rparr>"

section \<open>Derived names\<close>

lemma strings_Split_length: "length (strings_Split s sep) = Suc (count_list s sep)"
  by (induction s) (auto split: list.splits)

text \<open>
  Claim C8.  The temporary node pool is named "tmp" followed by the base pool name cut
  to its first 9 bytes; the name is never longer than 12 bytes, and it is a function
  of the spec's base pool name alone.
\<close>

theorem GetTemporaryNodepoolName_tmp_prefix:
  "GetTemporaryNodepoolName s = ''tmp'' @ take 9 (BaseForBackupPool (Spec s))
   \<and> length (GetTemporaryNodepoolName s) \<le> 12
   \<and> (if length (BaseForBackupPool (Spec s)) > 9
        then length (GetTemporaryNodepoolName s) = 12
        else GetTemporaryNodepoolName s = ''tmp'' @ BaseForBackupPool (Spec s))
   \<and> (BaseForBackupPool (Spec s) = BaseForBackupPool (Spec s')
        \<longrightarrow> GetTemporaryNodepoolName s = GetTemporaryNodepoolName s')"
  by (simp add: GetTemporaryNodepoolName_def)

theorem GetTemporaryNodepoolName_tmp_prefix_witness:
  "GetTemporaryNodepoolName campaign = ''tmpworkerpoo''
   \<and> length (GetTemporaryNodepoolName campaign) = 12"
  using GetTemporaryNodepoolName_tmp_prefix [of campaign campaign]
  by (simp add: campaign_def)

section \<open>The cluster-name index\<close>

text \<open>
  Claim C9.  The guard rejects fewer than 2 parts, the code then reads index 2: for a
  resource group name that splits into exactly 2 parts (exactly one underscore) the
  guard passes and the read is out of range, so the call panics.
\<close>

theorem GetClusterInfo_index_out_of_range:
  assumes "length (strings_Split rg CHR ''_'') = 2"
  shows "\<not> length (strings_Split rg CHR ''_'') < 2
     \<and> \<not> 2 < length (strings_Split rg CHR ''_'')
     \<and> count_list rg CHR ''_'' = 1
     \<and> GetClusterInfo (Inr (200, Inr \<lparr>ResourceGroupName = rg, SubscriptionID = sub\<rparr>)) = Panic"
  using assms by (simp add: GetClusterInfo_def strings_Split_length)

theorem GetClusterInfo_index_out_of_range_witness:
  "strings_Split ''MC_myrg'' CHR ''_'' = [''MC'', ''myrg'']
   \<and> GetClusterInfo (Inr (200, Inr \<lparr>ResourceGroupName = ''MC_myrg'', SubscriptionID = ''s''\<rparr>)) = Panic"
  using GetClusterInfo_index_out_of_range [of "''MC_myrg''" "''s''"]
  by simp

section \<open>Selecting the pods that are safe to evict\<close>

lemma fetchPodLogs_stable:
  "Pods_GetLogs c tr ns name = Inr (Inr logs) \<Longrightarrow>
   fetchPodLogs c name ns tr = (Inr logs, tr @ [CPodsGetLogs ns name])"
  by (simp add: fetchPodLogs_def)

lemma keys_replicate:
  "\<exists>n. fst (GetSafeToEvictPods_keys c spec pod kvs acc tr) = acc @ replicate n pod"
proof (induction kvs arbitrary: acc tr)
  case Nil
  then show ?case by simp
next
  case (Cons kv kvs)
  obtain key val where kv: "kv = (key, val)" by (cases kv)
  show ?case
  proof (cases "map_index (Pod_Labels pod) key \<noteq> val \<and> Phase pod = PodRunning")
    case False
    then show ?thesis using Cons.IH [of acc tr] kv by auto
  next
    case True
    obtain r tr1 where f: "fetchPodLogs c (Pod_Name pod) (Pod_Namespace pod) tr = (r, tr1)"
      by (cases "fetchPodLogs c (Pod_Name pod) (Pod_Namespace pod) tr")
    show ?thesis
    proof (cases r)
      case (Inl err)
      then show ?thesis using Cons.IH [of acc tr1] kv True f by auto
    next
      case (Inr logs)
      show ?thesis
      proof (cases "list_ex (\<lambda>line. HasSuffix logs line) (LastLogLines spec)")
        case False
        then show ?thesis using Cons.IH [of acc tr1] kv True f Inr by auto
      next
        case ex: True
        from Cons.IH [of "acc @ [pod]" tr1] obtain n where
          "fst (GetSafeToEvictPods_keys c spec pod kvs (acc @ [pod]) tr1) = (acc @ [pod]) @ replicate n pod"
          by blast
        then have "fst (GetSafeToEvictPods_keys c spec pod (kv # kvs) acc tr) = acc @ replicate (Suc n) pod"
          using kv True f Inr ex by simp
        then show ?thesis by blast
      qed
    qed
  qed
qed

lemma keys_count:
  assumes "\<forall>tr. Pods_GetLogs c tr (Pod_Namespace pod) (Pod_Name pod) = Inr (Inr logs)"
    and "list_ex (\<lambda>line. HasSuffix logs line) (LastLogLines spec)"
    and "Phase pod = PodRunning"
  shows "fst (GetSafeToEvictPods_keys c spec pod kvs acc tr) =
         acc @ replicate (length (filter (\<lambda>(key, val). map_index (Pod_Labels pod) key \<noteq> val) kvs)) pod"
  using assms
proof (induction kvs arbitrary: acc tr)
  case Nil
  then show ?case by simp
next
  case (Cons kv kvs)
  obtain key val where kv: "kv = (key, val)" by (cases kv)
  have f: "fetchPodLogs c (Pod_Name pod) (Pod_Namespace pod) tr
           = (Inr logs, tr @ [CPodsGetLogs (Pod_Namespace pod) (Pod_Name pod)])"
    using Cons.prems(1) by (simp add: fetchPodLogs_stable)
  show ?case
    using Cons.IH [OF Cons.prems] kv f Cons.prems(2,3)
    by (simp add: replicate_app_Cons_same)
qed

lemma count_list_replicate: "count_list (replicate n x) y = (if x = y then n else 0)"
  by (induction n) auto

lemma count_list_pos: "x \<in> set xs \<Longrightarrow> 0 < count_list xs x"
  by (induction xs) auto

lemma distinct_count_list_le1: "distinct xs \<Longrightarrow> count_list xs x \<le> 1"
  by (induction xs) (auto simp: count_list_0_iff)

lemma items_subset:
  "set (fst (GetSafeToEvictPods_items c spec items acc tr))
   \<subseteq> set acc \<union> {q \<in> set items. Pod_Namespace q \<in> set (Namespaces spec)}"
proof (induction items arbitrary: acc tr)
  case Nil
  then show ?case by simp
next
  case (Cons pod items)
  show ?case
  proof (cases "Pod_Namespace pod \<in> set (Namespaces spec)")
    case False
    then show ?thesis using Cons.IH [of acc tr] by auto
  next
    case True
    obtain acc1 tr1 where k: "GetSafeToEvictPods_keys c spec pod (LabelSelector spec) acc tr = (acc1, tr1)"
      by (cases "GetSafeToEvictPods_keys c spec pod (LabelSelector spec) acc tr")
    from keys_replicate [of c spec pod "LabelSelector spec" acc tr] k
    obtain n where "acc1 = acc @ replicate n pod" by auto
    then have "set acc1 \<subseteq> set acc \<union> {pod}" by auto
    then show ?thesis using Cons.IH [of acc1 tr1] True k by auto
  qed
qed

lemma items_count:
  assumes "\<forall>tr. Pods_GetLogs c tr (Pod_Namespace p) (Pod_Name p) = Inr (Inr logs)"
    and "list_ex (\<lambda>line. HasSuffix logs line) (LastLogLines spec)"
    and "Phase p = PodRunning"
    and "Pod_Namespace p \<in> set (Namespaces spec)"
  shows "count_list (fst (GetSafeToEvictPods_items c spec items acc tr)) p =
         count_list acc p
         + count_list items p * length (filter (\<lambda>(key, val). map_index (Pod_Labels p) key \<noteq> val) (LabelSelector spec))"
proof (induction items arbitrary: acc tr)
  case Nil
  then show ?case by simp
next
  case (Cons pod items)
  show ?case
  proof (cases "Pod_Namespace pod \<in> set (Namespaces spec)")
    case False
    then have "pod \<noteq> p" using assms(4) by auto
    then show ?thesis using Cons.IH [of acc tr] False by simp
  next
    case True
    obtain acc1 tr1 where k: "GetSafeToEvictPods_keys c spec pod (LabelSelector spec) acc tr = (acc1, tr1)"
      by (cases "GetSafeToEvictPods_keys c spec pod (LabelSelector spec) acc tr")
    show ?thesis
    proof (cases "pod = p")
      case True
      have "acc1 = acc @ replicate (length (filter (\<lambda>(key, val). map_index (Pod_Labels p) key \<noteq> val) (LabelSelector spec))) p"
        using keys_count [OF assms(1,2,3), of "LabelSelector spec" acc tr] k True by simp
      then show ?thesis using Cons.IH [of acc1 tr1] k True assms(4) by (simp add: count_list_replicate)
    next
      case False
      from keys_replicate [of c spec pod "LabelSelector spec" acc tr] k
      obtain n where "acc1 = acc @ replicate n pod" by auto
      then have "count_list acc1 p = count_list acc p" using False by (simp add: count_list_replicate)
      then show ?thesis using Cons.IH [of acc1 tr1] k True False by simp
    qed
  qed
qed


text \<open>
  Claim C1.  First conjunct: whatever the logs say, every pod of the returned list is
  in a monitored namespace.  Second conjunct: a listed pod in a monitored namespace that
  does not satisfy the done-label condition, is running, and whose log (as every fetch
  of it returns it) ends with a configured line, is in the returned list.
\<close>

theorem GetSafeToEvictPods_selection:
  "(\<forall>res tr' q. GetSafeToEvictPods c spec tr = (Inr res, tr') \<and> q \<in> set res
        \<longrightarrow> Pod_Namespace q \<in> set (Namespaces spec))
   \<and> (Pods_List c tr '''' = Inr items \<and> p \<in> set items
        \<and> Pod_Namespace p \<in> set (Namespaces spec)
        \<and> \<not> labelled_done spec p
        \<and> Phase p = PodRunning
        \<and> (\<forall>tr'. Pods_GetLogs c tr' (Pod_Namespace p) (Pod_Name p) = Inr (Inr logs))
        \<and> line \<in> set (LastLogLines spec) \<and> HasSuffix logs line
      \<longrightarrow> (\<exists>res tr'. GetSafeToEvictPods c spec tr = (Inr res, tr') \<and> p \<in> set res))"
proof (intro conjI allI impI)
  fix res tr' q
  assume a: "GetSafeToEvictPods c spec tr = (Inr res, tr') \<and> q \<in> set res"
  then obtain items where l: "Pods_List c tr '''' = Inr items"
    by (cases "Pods_List c tr ''''") (auto simp: GetSafeToEvictPods_def)
  have "res = fst (GetSafeToEvictPods_items c spec items [] (tr @ [CPodsList '''']))"
    using a l by (auto simp: GetSafeToEvictPods_def split: prod.splits)
  then show "Pod_Namespace q \<in> set (Namespaces spec)"
    using items_subset [of c spec items "[]" "tr @ [CPodsList '''']"] a by auto
next
  assume a: "Pods_List c tr '''' = Inr items \<and> p \<in> set items
        \<and> Pod_Namespace p \<in> set (Namespaces spec)
        \<and> \<not> labelled_done spec p
        \<and> Phase p = PodRunning
        \<and> (\<forall>tr'. Pods_GetLogs c tr' (Pod_Namespace p) (Pod_Name p) = Inr (Inr logs))
        \<and> line \<in> set (LastLogLines spec) \<and> HasSuffix logs line"
  let ?m = "length (filter (\<lambda>(key, val). map_index (Pod_Labels p) key \<noteq> val) (LabelSelector spec))"
  have ex: "list_ex (\<lambda>line. HasSuffix logs line) (LastLogLines spec)"
    using a by (auto simp: list_ex_iff)
  have "\<exists>kv \<in> set (LabelSelector spec). (case kv of (key, val) \<Rightarrow> map_index (Pod_Labels p) key \<noteq> val)"
    using a by (auto simp: labelled_done_def list_all_iff)
  then have m: "0 < ?m" by (simp add: filter_empty_conv) 
  have c: "0 < count_list items p" using a by (simp add: count_list_pos)
  obtain res tr1 where g: "GetSafeToEvictPods_items c spec items [] (tr @ [CPodsList '''']) = (res, tr1)"
    by (cases "GetSafeToEvictPods_items c spec items [] (tr @ [CPodsList ''''])")
  have "count_list res p = count_list items p * ?m"
    using items_count [of c p logs spec items "[]" "tr @ [CPodsList '''']"] a ex g by simp
  then have "0 < count_list res p" using m c by simp
  then have "p \<in> set res" using count_list_0_iff [of res p] by auto
  moreover have "GetSafeToEvictPods c spec tr = (Inr res, tr1)"
    using a g by (simp add: GetSafeToEvictPods_def)
  ultimately show "\<exists>res tr'. GetSafeToEvictPods c spec tr = (Inr res, tr') \<and> p \<in> set res" by blast
qed

text \<open>
  Claim C10.  The returned list can hold a pod more than once: a running pod in a
  monitored namespace whose log ends with a configured line is appended once for every
  selector entry it mismatches, so with two or more mismatches the list is not
  duplicate-free.
\<close>

theorem GetSafeToEvictPods_duplicates:
  assumes "Pods_List c tr '''' = Inr items" and "p \<in> set items"
    and "Pod_Namespace p \<in> set (Namespaces spec)"
    and "Phase p = PodRunning"
    and "\<forall>tr'. Pods_GetLogs c tr' (Pod_Namespace p) (Pod_Name p) = Inr (Inr logs)"
    and "list_ex (\<lambda>line. HasSuffix logs line) (LastLogLines spec)"
    and "2 \<le> length (filter (\<lambda>(key, val). map_index (Pod_Labels p) key \<noteq> val) (LabelSelector spec))"
  shows "\<exists>res tr'. GetSafeToEvictPods c spec tr = (Inr res, tr')
           \<and> count_list res p
               = count_list items p
                 * length (filter (\<lambda>(key, val). map_index (Pod_Labels p) key \<noteq> val) (LabelSelector spec))
           \<and> 2 \<le> count_list res p \<and> \<not> distinct res"
proof -
  let ?m = "length (filter (\<lambda>(key, val). map_index (Pod_Labels p) key \<noteq> val) (LabelSelector spec))"
  obtain res tr1 where g: "GetSafeToEvictPods_items c spec items [] (tr @ [CPodsList '''']) = (res, tr1)"
    by (cases "GetSafeToEvictPods_items c spec items [] (tr @ [CPodsList ''''])")
  have cnt: "count_list res p = count_list items p * ?m"
    using items_count [of c p logs spec items "[]" "tr @ [CPodsList '''']"] assms g by simp
  have "1 \<le> count_list items p" using count_list_pos [OF assms(2)] by simp
  then have "1 * 2 \<le> count_list items p * ?m" using assms(7) by (rule mult_le_mono)
  then have two: "2 \<le> count_list res p" using cnt by simp
  have "\<not> distinct res"
  proof
    assume "distinct res"
    then have "count_list res p \<le> 1" by (rule distinct_count_list_le1)
    then show False using two by simp
  qed
  moreover have "GetSafeToEvictPods c spec tr = (Inr res, tr1)"
    using assms(1) g by (simp add: GetSafeToEvictPods_def)
  ultimately show ?thesis using cnt two by blast
qed

theorem GetSafeToEvictPods_selection_witness:
  "pod_idle \<in> set [pod_system, pod_idle]
   \<and> \<not> labelled_done (Spec campaign) pod_idle
   \<and> (\<exists>res tr'. GetSafeToEvictPods world (Spec campaign) [] = (Inr res, tr') \<and> pod_idle \<in> set res)
   \<and> (\<forall>res tr'. GetSafeToEvictPods world (Spec campaign) [] = (Inr res, tr')
         \<and> pod_system \<in> set res \<longleftrightarrow> False)"
proof -
  have ns: "Pod_Namespace pod_system \<notin> set (Namespaces (Spec campaign))"
    by (simp add: pod_system_def campaign_def)
  have hyp: "Pods_List world [] '''' = Inr [pod_system, pod_idle]
     \<and> pod_idle \<in> set [pod_system, pod_idle]
     \<and> Pod_Namespace pod_idle \<in> set (Namespaces (Spec campaign))
     \<and> \<not> labelled_done (Spec campaign) pod_idle
     \<and> Phase pod_idle = PodRunning
     \<and> (\<forall>tr'. Pods_GetLogs world tr' (Pod_Namespace pod_idle) (Pod_Name pod_idle)
            = Inr (Inr ''Connected. Listening for Jobs''))
     \<and> ''Listening for Jobs'' \<in> set (LastLogLines (Spec campaign))
     \<and> HasSuffix ''Connected. Listening for Jobs'' ''Listening for Jobs''"
    by (simp add: world_def pod_idle_def campaign_def labelled_done_def map_index_def
        PodRunning_def HasSuffix_def)
  show ?thesis
    using GetSafeToEvictPods_selection
      [of world "Spec campaign" "[]" "[pod_system, pod_idle]" pod_idle
          "''Connected. Listening for Jobs''" "''Listening for Jobs''"]
      hyp ns
    by blast
qed

theorem GetSafeToEvictPods_duplicates_witness:
  "distinct (map fst (LabelSelector (Spec campaign)))
   \<and> length (filter (\<lambda>(key, val). map_index (Pod_Labels pod_idle) key \<noteq> val)
               (LabelSelector (Spec campaign))) = 2
   \<and> (\<exists>res tr'. GetSafeToEvictPods world (Spec campaign) [] = (Inr res, tr')
         \<and> count_list res pod_idle = 2 \<and> \<not> distinct res)"
proof -
  have two: "length (filter (\<lambda>(key, val). map_index (Pod_Labels pod_idle) key \<noteq> val)
               (LabelSelector (Spec campaign))) = 2"
    by (simp add: pod_idle_def campaign_def map_index_def)
  have one: "count_list [pod_system, pod_idle] pod_idle = 1"
    by (simp add: pod_idle_def pod_system_def)
  have hyp: "Pods_List world [] '''' = Inr [pod_system, pod_idle]
     \<and> pod_idle \<in> set [pod_system, pod_idle]
     \<and> Pod_Namespace pod_idle \<in> set (Namespaces (Spec campaign))
     \<and> Phase pod_idle = PodRunning
     \<and> (\<forall>tr'. Pods_GetLogs world tr' (Pod_Namespace pod_idle) (Pod_Name pod_idle)
            = Inr (Inr ''Connected. Listening for Jobs''))
     \<and> list_ex (\<lambda>line. HasSuffix ''Connected. Listening for Jobs'' line) (LastLogLines (Spec campaign))"
    by (simp add: world_def pod_idle_def campaign_def PodRunning_def HasSuffix_def)
  have d: "distinct (map fst (LabelSelector (Spec campaign)))"
    by (simp add: campaign_def)
  show ?thesis
    using GetSafeToEvictPods_duplicates
      [of world "[]" "[pod_system, pod_idle]" pod_idle "Spec campaign"
          "''Connected. Listening for Jobs''"]
      hyp two one d
    by auto
qed

section \<open>Eviction\<close>

lemma first_env_find:
  "first_env name envVars
     = (case find (\<lambda>envVar. EnvVar_Name envVar = name) envVars of
          None \<Rightarrow> None
        | Some envVar \<Rightarrow> Some (Value envVar))"
  by (induction envVars) auto

lemma first_job_find:
  "first_job ownerRefs
     = (case find (\<lambda>ownerRef. ToLower (Kind ownerRef) = ''job'') ownerRefs of
          None \<Rightarrow> None
        | Some ownerRef \<Rightarrow> Some (OwnerReference_Name ownerRef))"
  by (induction ownerRefs) auto

lemma getPodsPool_pool_read:
  "getPodsPool c (Pod_Name pod) (Pod_Namespace pod) tr
     = (case pool_read c tr pod of
          None \<Rightarrow>
            (Inl (case Pods_Get c tr (Pod_Namespace pod) (Pod_Name pod) of
                    Inl err \<Rightarrow>
                      Wrap (''failed to get pod '' @ [CHR 0x27] @ Pod_Name pod @ [CHR 0x27]
                            @ '' in namespace '' @ Pod_Namespace pod @ '': '') err
                  | Inr live \<Rightarrow>
                      Plain (''environment variable AZP_POOL not found in pod '' @ [CHR 0x27]
                             @ Pod_Name pod @ [CHR 0x27] @ '' in namespace '' @ Pod_Namespace pod)),
             tr @ [CPodsGet (Pod_Namespace pod) (Pod_Name pod)])
        | Some poolName \<Rightarrow> (Inr poolName, tr @ [CPodsGet (Pod_Namespace pod) (Pod_Name pod)]))"
  by (simp add: getPodsPool_def pool_read_def pool_value_def first_env_find
           split: sum.splits option.splits)

lemma KillJobByPod_delete_job: "KillJobByPod c pod tr = delete_job c pod tr"
  by (cases "OwnerReferences pod")
     (auto simp: KillJobByPod_def delete_job_def owning_job_def first_job_find Let_def
           split: option.splits)

lemma KillPod_delete_pod: "KillPod c pod tr = delete_pod c pod tr"
  by (simp add: KillPod_def delete_pod_def split: option.splits)

lemma EvictIdlePods_Cons:
  "EvictIdlePods c (pod # pods) tr =
     (case evict_pod c pod tr of
        (Some err, tr1) \<Rightarrow> (Some err, tr1)
      | (None, tr1) \<Rightarrow> EvictIdlePods c pods tr1)"
  by (simp add: getPodsPool_pool_read KillJobByPod_delete_job KillPod_delete_pod
           evict_pod_def disable_agent_def remove_agent_def Let_def
           split: prod.splits sum.splits option.splits)

lemma EvictIdlePods_first_failure:
  "EvictIdlePods c pods tr = first_failure (map (evict_pod c) pods) tr"
proof (induction pods arbitrary: tr)
  case Nil
  show ?case by simp
next
  case (Cons pod pods)
  show ?case
    unfolding EvictIdlePods_Cons using Cons.IH
    by (simp split: prod.splits option.splits)
qed

lemma evict_pod_calls:
  assumes "evict_pod c pod tr = (r, tr1)"
  shows "\<exists>poolName jobName part. tr1 = tr @ part \<and> part \<noteq> []
           \<and> prefix part (pod_calls pod poolName jobName)
           \<and> (1 < length part \<longrightarrow> pool_read c tr pod = Some poolName)
           \<and> (3 < length part \<longrightarrow> owning_job pod = Some jobName)
           \<and> (r = None \<longrightarrow> part = pod_calls pod poolName jobName)"
proof (cases "pool_read c tr pod")
  case None
  then have "tr1 = tr @ [CPodsGet (Pod_Namespace pod) (Pod_Name pod)]" "r \<noteq> None"
    using assms by (auto simp: evict_pod_def)
  then show ?thesis by (auto simp: pod_calls_def)
next
  case (Some poolName)
  show ?thesis
  proof (cases "owning_job pod")
    case None
    have "tr1 = tr @ take (length tr1 - length tr) (pod_calls pod poolName [])
          \<and> 0 < length tr1 - length tr \<and> length tr1 - length tr \<le> 3 \<and> r \<noteq> None"
      using assms Some None
      apply (auto simp: evict_pod_def disable_agent_def remove_agent_def delete_job_def
            pod_calls_def split: option.splits if_splits)
      apply (metis+)?
      done
    then have "tr1 = tr @ take (length tr1 - length tr) (pod_calls pod poolName [])
          \<and> take (length tr1 - length tr) (pod_calls pod poolName []) \<noteq> []
          \<and> prefix (take (length tr1 - length tr) (pod_calls pod poolName [])) (pod_calls pod poolName [])
          \<and> (1 < length (take (length tr1 - length tr) (pod_calls pod poolName []))
               \<longrightarrow> pool_read c tr pod = Some poolName)
          \<and> (3 < length (take (length tr1 - length tr) (pod_calls pod poolName []))
               \<longrightarrow> owning_job pod = Some [])
          \<and> (r = None \<longrightarrow> take (length tr1 - length tr) (pod_calls pod poolName []) = pod_calls pod poolName [])"
      using Some by (auto simp: take_is_prefix pod_calls_def)
    then show ?thesis by blast
  next
    case (Some jobName)
    have "tr1 = tr @ take (length tr1 - length tr) (pod_calls pod poolName jobName)
          \<and> 0 < length tr1 - length tr
          \<and> (r = None \<longrightarrow> length tr1 - length tr = 5)"
      using assms \<open>pool_read c tr pod = Some poolName\<close> Some
      apply (auto simp: evict_pod_def disable_agent_def remove_agent_def delete_job_def delete_pod_def
            pod_calls_def split: option.splits if_splits)
      apply (metis+)?
      done
    then have "tr1 = tr @ take (length tr1 - length tr) (pod_calls pod poolName jobName)
          \<and> take (length tr1 - length tr) (pod_calls pod poolName jobName) \<noteq> []
          \<and> prefix (take (length tr1 - length tr) (pod_calls pod poolName jobName))
                   (pod_calls pod poolName jobName)
          \<and> (1 < length (take (length tr1 - length tr) (pod_calls pod poolName jobName))
               \<longrightarrow> pool_read c tr pod = Some poolName)
          \<and> (3 < length (take (length tr1 - length tr) (pod_calls pod poolName jobName))
               \<longrightarrow> owning_job pod = Some jobName)
          \<and> (r = None \<longrightarrow> take (length tr1 - length tr) (pod_calls pod poolName jobName)
                              = pod_calls pod poolName jobName)"
      using \<open>pool_read c tr pod = Some poolName\<close> Some by (auto simp: take_is_prefix pod_calls_def)
    then show ?thesis by blast
  qed
qed

lemma evictions_Nil: "evictions [] names = []"
  by (simp add: evictions_def)

lemma evictions_Cons:
  "evictions (pod # pods) ((poolName, jobName) # names)
     = pod_calls pod poolName jobName @ evictions pods names"
  by (simp add: evictions_def)

lemma first_failure_calls:
  "first_failure (map (evict_pod c) pods) tr = (r, tr') \<Longrightarrow>
   \<exists>n names part. n \<le> length pods \<and> length names = n
      \<and> tr' = tr @ evictions (take n pods) names @ part
      \<and> (\<forall>i<n. pool_read c (tr @ evictions (take i pods) (take i names)) (pods ! i)
                   = Some (fst (names ! i))
                 \<and> owning_job (pods ! i) = Some (snd (names ! i)))
      \<and> (case r of
            None \<Rightarrow> n = length pods \<and> part = []
          | Some err \<Rightarrow> n < length pods \<and> part \<noteq> []
                \<and> (\<exists>poolName jobName. prefix part (pod_calls (pods ! n) poolName jobName)
                      \<and> (1 < length part \<longrightarrow>
                            pool_read c (tr @ evictions (take n pods) names) (pods ! n) = Some poolName)
                      \<and> (3 < length part \<longrightarrow> owning_job (pods ! n) = Some jobName)))"
proof (induction pods arbitrary: tr)
  case Nil
  then show ?case by (auto simp: evictions_Nil)
next
  case (Cons pod pods)
  obtain r1 tr1 where e: "evict_pod c pod tr = (r1, tr1)" by (cases "evict_pod c pod tr")
  from evict_pod_calls [OF e] obtain poolName jobName part1 where
    p: "tr1 = tr @ part1" "part1 \<noteq> []" "prefix part1 (pod_calls pod poolName jobName)"
       "1 < length part1 \<longrightarrow> pool_read c tr pod = Some poolName"
       "3 < length part1 \<longrightarrow> owning_job pod = Some jobName"
       "r1 = None \<longrightarrow> part1 = pod_calls pod poolName jobName"
    by blast
  show ?case
  proof (cases r1)
    case (Some err)
    then have "r = Some err" "tr' = tr1" using Cons.prems e by auto
    then have "0 \<le> length (pod # pods) \<and> length ([]::(string \<times> string) list) = 0
      \<and> tr' = tr @ evictions (take 0 (pod # pods)) [] @ part1
      \<and> (\<forall>i<0. pool_read c (tr @ evictions (take i (pod # pods)) (take i [])) ((pod # pods) ! i)
                   = Some (fst (([]::(string \<times> string) list) ! i))
                 \<and> owning_job ((pod # pods) ! i) = Some (snd (([]::(string \<times> string) list) ! i)))
      \<and> (case r of
            None \<Rightarrow> 0 = length (pod # pods) \<and> part1 = []
          | Some err \<Rightarrow> 0 < length (pod # pods) \<and> part1 \<noteq> []
                \<and> (\<exists>poolName jobName. prefix part1 (pod_calls ((pod # pods) ! 0) poolName jobName)
                      \<and> (1 < length part1 \<longrightarrow>
                            pool_read c (tr @ evictions (take 0 (pod # pods)) []) ((pod # pods) ! 0)
                              = Some poolName)
                      \<and> (3 < length part1 \<longrightarrow> owning_job ((pod # pods) ! 0) = Some jobName)))"
      using p by (auto simp: evictions_Nil)
    then show ?thesis by blast
  next
    case None
    then have rest: "first_failure (map (evict_pod c) pods) tr1 = (r, tr')"
      using Cons.prems e by auto
    have full: "part1 = pod_calls pod poolName jobName" using p None by simp
    then have names: "pool_read c tr pod = Some poolName" "owning_job pod = Some jobName"
      using p by (simp_all add: pod_calls_def)
    from Cons.IH [OF rest] obtain n names part where
      ih: "n \<le> length pods" "length names = n"
          "tr' = tr1 @ evictions (take n pods) names @ part"
          "\<forall>i<n. pool_read c (tr1 @ evictions (take i pods) (take i names)) (pods ! i)
                   = Some (fst (names ! i))
                 \<and> owning_job (pods ! i) = Some (snd (names ! i))"
          "(case r of
            None \<Rightarrow> n = length pods \<and> part = []
          | Some err \<Rightarrow> n < length pods \<and> part \<noteq> []
                \<and> (\<exists>poolName jobName. prefix part (pod_calls (pods ! n) poolName jobName)
                      \<and> (1 < length part \<longrightarrow>
                            pool_read c (tr1 @ evictions (take n pods) names) (pods ! n) = Some poolName)
                      \<and> (3 < length part \<longrightarrow> owning_job (pods ! n) = Some jobName)))"
      by blast
    have each: "\<forall>i<Suc n. pool_read c (tr @ evictions (take i (pod # pods))
                                          (take i ((poolName, jobName) # names))) ((pod # pods) ! i)
                   = Some (fst (((poolName, jobName) # names) ! i))
                 \<and> owning_job ((pod # pods) ! i) = Some (snd (((poolName, jobName) # names) ! i))"
    proof (intro allI impI)
      fix i assume "i < Suc n"
      show "pool_read c (tr @ evictions (take i (pod # pods))
                                          (take i ((poolName, jobName) # names))) ((pod # pods) ! i)
                   = Some (fst (((poolName, jobName) # names) ! i))
                 \<and> owning_job ((pod # pods) ! i) = Some (snd (((poolName, jobName) # names) ! i))"
      proof (cases i)
        case 0
        then show ?thesis using names by (simp add: evictions_Nil)
      next
        case (Suc k)
        then have "k < n" using \<open>i < Suc n\<close> by simp
        then show ?thesis using ih(4) Suc p(1) full by (simp add: evictions_Cons)
      qed
    qed
    have "Suc n \<le> length (pod # pods) \<and> length ((poolName, jobName) # names) = Suc n
      \<and> tr' = tr @ evictions (take (Suc n) (pod # pods)) ((poolName, jobName) # names) @ part
      \<and> (case r of
            None \<Rightarrow> Suc n = length (pod # pods) \<and> part = []
          | Some err \<Rightarrow> Suc n < length (pod # pods) \<and> part \<noteq> []
                \<and> (\<exists>poolName' jobName'. prefix part (pod_calls ((pod # pods) ! Suc n) poolName' jobName')
                      \<and> (1 < length part \<longrightarrow>
                            pool_read c (tr @ evictions (take (Suc n) (pod # pods))
                                                 ((poolName, jobName) # names)) ((pod # pods) ! Suc n)
                              = Some poolName')
                      \<and> (3 < length part \<longrightarrow> owning_job ((pod # pods) ! Suc n) = Some jobName')))"
      using ih(1,2,3,5) p(1) full by (auto simp: evictions_Cons split: option.splits)
    with each show ?thesis by blast
  qed
qed


text \<open>
  Claim C2.  \<open>EvictIdlePods\<close> is the pods' eviction sequences run one after the
  other, the first failing sub-step ending the call with that sub-step's error; a pod's
  eviction sequence reads the pool value (the first AZP_POOL variable of the pod object
  the API answers with), disables and removes the agent of that pool with the pod's
  name, deletes the owning job (the first owner reference of kind "job") and deletes
  the pod.  In the trace: the pods before the failing one each left their five calls,
  in order, with the pool value read at that moment and the pod's owning job; the
  failing pod left a non-empty initial part of its five calls, again for that pool and
  that job; no later pod left any; and when the call succeeds every pod left exactly
  its five calls.
\<close>

theorem EvictIdlePods_sequential:
  "EvictIdlePods c pods tr = first_failure (map (evict_pod c) pods) tr
   \<and> (\<forall>r tr'. EvictIdlePods c pods tr = (r, tr') \<longrightarrow>
        (\<exists>n names part. n \<le> length pods \<and> length names = n
           \<and> tr' = tr @ evictions (take n pods) names @ part
           \<and> (\<forall>i<n. pool_read c (tr @ evictions (take i pods) (take i names)) (pods ! i)
                        = Some (fst (names ! i))
                      \<and> owning_job (pods ! i) = Some (snd (names ! i)))
           \<and> (case r of
                 None \<Rightarrow> n = length pods \<and> part = []
               | Some err \<Rightarrow> n < length pods \<and> part \<noteq> []
                     \<and> (\<exists>poolName jobName. prefix part (pod_calls (pods ! n) poolName jobName)
                           \<and> (1 < length part \<longrightarrow>
                                 pool_read c (tr @ evictions (take n pods) names) (pods ! n)
                                   = Some poolName)
                           \<and> (3 < length part \<longrightarrow> owning_job (pods ! n) = Some jobName)))))"
  using first_failure_calls [of c pods tr] by (simp add: EvictIdlePods_first_failure)

lemma ToLower_Job: "ToLower ''Job'' = ''job''"
  by (simp add: ToLower_def lower_char_def)

lemma ToLower_ReplicaSet: "ToLower ''ReplicaSet'' = ''replicaset''"
  by (simp add: ToLower_def lower_char_def)

theorem EvictIdlePods_sequential_witness:
  "EvictIdlePods world_two [pod_two] [] = (None, pod_calls pod_two ''ado-pool'' ''job-2'')
   \<and> EvictIdlePods world_remove_fails [pod_idle, pod_system] []
       = (Some (Plain ''agent not found''),
          [CPodsGet ''agents'' ''agent-1'', CDisableAgent ''ado-pool'' ''agent-1'',
           CRemoveAgent ''ado-pool'' ''agent-1''])"
proof -
  have a: "EvictIdlePods world_two [pod_two] [] = first_failure (map (evict_pod world_two) [pod_two]) []"
    using EvictIdlePods_sequential [of world_two "[pod_two]" "[]"] by blast
  have b: "EvictIdlePods world_remove_fails [pod_idle, pod_system] []
           = first_failure (map (evict_pod world_remove_fails) [pod_idle, pod_system]) []"
    using EvictIdlePods_sequential [of world_remove_fails "[pod_idle, pod_system]" "[]"] by blast
  show ?thesis
    unfolding a b
    by (simp add: evict_pod_def pool_read_def pool_value_def owning_job_def disable_agent_def
          remove_agent_def delete_job_def delete_pod_def pod_calls_def world_two_def
          world_remove_fails_def world_def pod_idle_def pod_two_def ToLower_Job ToLower_ReplicaSet)
qed

section \<open>The scaling-state record is written once\<close>

text \<open>
  Claim C3.  A record exists for the campaign when reading it succeeds.  Then
  \<open>CreateConfigMap\<close> returns success after the read alone, whatever snapshot it was
  given: no create and no delete request for the record is sent, so what is stored stays
  as it is.  Only when the read fails is the create request sent, with the given
  snapshot, and its outcome is the call's outcome.
\<close>

theorem CreateConfigMap_write_once:
  "(case ConfigMaps_Get c tr namespace name of
      Inr stored \<Rightarrow>
        CreateConfigMap c namespace name data tr = (None, tr @ [CConfigMapsGet namespace name])
        \<and> \<not> list_ex (writes_record namespace name)
              (drop (length tr) (snd (CreateConfigMap c namespace name data tr)))
    | Inl err \<Rightarrow>
        snd (CreateConfigMap c namespace name data tr)
          = tr @ [CConfigMapsGet namespace name, CConfigMapsCreate namespace name data]
        \<and> fst (CreateConfigMap c namespace name data tr)
          = (case ConfigMaps_Create c (tr @ [CConfigMapsGet namespace name]) namespace name data of
               None \<Rightarrow> None
             | Some err1 \<Rightarrow> Some (Plain (''failed to create ConfigMap: '' @ Error_text err1))))"
  by (simp add: CreateConfigMap_def getConfigMap_def split: sum.splits option.splits)

theorem CreateConfigMap_write_once_witness:
  "CreateConfigMap world ''default'' ''tmpupgrade'' [(''poolA'', ''{\"Count\": 9}'')] []
     = (None, [CConfigMapsGet ''default'' ''tmpupgrade''])
   \<and> snd (CreateConfigMap world_no_record ''default'' ''tmpupgrade'' [(''poolA'', ''{\"Count\": 9}'')] [])
     = [CConfigMapsGet ''default'' ''tmpupgrade'',
        CConfigMapsCreate ''default'' ''tmpupgrade'' [(''poolA'', ''{\"Count\": 9}'')]]"
  using CreateConfigMap_write_once [where c = world and tr = "[]" and namespace = "''default''"
        and name = "''tmpupgrade''" and data = "[(''poolA'', ''{\"Count\": 9}'')]"]
    CreateConfigMap_write_once [where c = world_no_record and tr = "[]" and namespace = "''default''"
        and name = "''tmpupgrade''" and data = "[(''poolA'', ''{\"Count\": 9}'')]"]
  by (simp add: world_def world_no_record_def)

section \<open>Turning autoscaling off\<close>

lemma DisableAutoScaling_in_turn:
  "list_all usable (map snd pools) \<Longrightarrow>
   DisableAutoScaling c pools tr = disable_in_turn c (filter to_disable (map snd pools)) tr"
proof (induction pools arbitrary: tr)
  case Nil
  show ?case by simp
next
  case (Cons kp pools)
  obtain key pool where kp: "kp = (key, pool)" by (cases kp)
  from Cons.prems kp obtain name props mode state where
    p: "AgentPool_Name pool = Some name" "Properties pool = Some props"
       "Mode props = Some mode" "ProvisioningState props = Some state"
    by (auto simp: usable_def split: option.splits)
  have rest: "\<And>tr. DisableAutoScaling c pools tr = disable_in_turn c (filter to_disable (map snd pools)) tr"
    using Cons by simp
  have td: "to_disable pool \<longleftrightarrow> mode \<noteq> AgentPoolModeSystem \<and> state = ''Succeeded''"
    using p by (simp add: to_disable_def)
  have off: "autoscaling_off pool = pool\<lparr>Properties := Some (props\<lparr>EnableAutoScaling := Some False\<rparr>)\<rparr>"
    using p by (simp add: autoscaling_off_def)
  have nm: "name_of pool = name" using p by (simp add: name_of_def)
  show ?case
    using p kp rest td
    by (auto simp: off [symmetric] nm disable_request_def split: option.splits)
qed

lemma disable_in_turn_all:
  "(\<forall>tr name pool. AgentPools_BeginCreateOrUpdate c tr name pool = None) \<Longrightarrow>
   disable_in_turn c pools tr = (Ok (), tr @ map disable_request pools)"
  by (induction pools arbitrary: tr) auto

lemma disable_in_turn_prefix:
  "\<exists>n \<le> length pools. snd (disable_in_turn c pools tr) = tr @ map disable_request (take n pools)"
proof (induction pools arbitrary: tr)
  case Nil
  show ?case by simp
next
  case (Cons pool pools)
  show ?case
  proof (cases "AgentPools_BeginCreateOrUpdate c tr (name_of pool) (autoscaling_off pool)")
    case None
    from Cons.IH [of "tr @ [disable_request pool]"] obtain n where
      "n \<le> length pools"
      "snd (disable_in_turn c pools (tr @ [disable_request pool]))
         = (tr @ [disable_request pool]) @ map disable_request (take n pools)" by blast
    then have "Suc n \<le> length (pool # pools)
       \<and> snd (disable_in_turn c (pool # pools) tr) = tr @ map disable_request (take (Suc n) (pool # pools))"
      using None by simp
    then show ?thesis by blast
  next
    case (Some err)
    then have "Suc 0 \<le> length (pool # pools)
       \<and> snd (disable_in_turn c (pool # pools) tr) = tr @ map disable_request (take (Suc 0) (pool # pools))"
      by simp
    then show ?thesis by blast
  qed
qed

text \<open>
  Claim C6, as the code has it.  For usable pools, \<open>DisableAutoScaling\<close> is
  \<open>disable_in_turn\<close> on the non-system pools in Succeeded state, in the order of the
  map's iteration: the requests sent are those of an initial part of these pools, a pool
  that is a system pool or not in Succeeded state is never sent, and when no request
  fails every such pool is sent and the call succeeds.
\<close>

theorem DisableAutoScaling_in_order_until_error:
  assumes "list_all usable (map snd pools)"
  shows "DisableAutoScaling c pools tr = disable_in_turn c (filter to_disable (map snd pools)) tr
     \<and> (\<exists>n \<le> length (filter to_disable (map snd pools)).
           snd (DisableAutoScaling c pools tr)
             = tr @ map disable_request (take n (filter to_disable (map snd pools))))
     \<and> ((\<forall>tr name pool. AgentPools_BeginCreateOrUpdate c tr name pool = None) \<longrightarrow>
           DisableAutoScaling c pools tr
             = (Ok (), tr @ map disable_request (filter to_disable (map snd pools))))"
  using DisableAutoScaling_in_turn [OF assms, of c tr]
    disable_in_turn_prefix [of "filter to_disable (map snd pools)" c tr]
    disable_in_turn_all [of c "filter to_disable (map snd pools)" tr]
  by simp

theorem DisableAutoScaling_in_order_until_error_witness:
  "list_all usable (map snd [(''system'', pool_system), (''poolA'', pool_A), (''poolB'', pool_B)])
   \<and> DisableAutoScaling world [(''system'', pool_system), (''poolA'', pool_A), (''poolB'', pool_B)] []
       = (Ok (), [disable_request pool_A, disable_request pool_B])"
proof -
  have u: "list_all usable (map snd [(''system'', pool_system), (''poolA'', pool_A), (''poolB'', pool_B)])"
    by (simp add: usable_def pool_system_def pool_A_def pool_B_def pool_props_def)
  have f: "filter to_disable (map snd [(''system'', pool_system), (''poolA'', pool_A), (''poolB'', pool_B)])
           = [pool_A, pool_B]"
    by (simp add: to_disable_def pool_system_def pool_A_def pool_B_def pool_props_def AgentPoolModeSystem_def)
  have n: "\<forall>tr name pool. AgentPools_BeginCreateOrUpdate world tr name pool = None"
    by (simp add: world_def)
  show ?thesis
    using DisableAutoScaling_in_order_until_error [OF u, of world "[]"] n u unfolding f by simp
qed

text \<open>
  The claim as stated fails: after a 409 answer for poolA the call returns success and
  poolB, a non-system pool in Succeeded state, is not sent.
\<close>

theorem DisableAutoScaling_conflict_counterexample:
  "to_disable pool_A \<and> to_disable pool_B
   \<and> DisableAutoScaling world_conflict [(''poolA'', pool_A), (''poolB'', pool_B)] []
       = (Ok (), [disable_request pool_A])
   \<and> disable_request pool_B
       \<notin> set (snd (DisableAutoScaling world_conflict [(''poolA'', pool_A), (''poolB'', pool_B)] []))"
  by (simp add: world_conflict_def world_def pool_A_def pool_B_def pool_props_def to_disable_def
        AgentPoolModeSystem_def disable_request_def name_of_def autoscaling_off_def)

section \<open>Restoring the scaling of a pool\<close>

lemma SetDefaultScaling_unparseable:
  "json_Unmarshal scalingData = Inl err \<Longrightarrow> SetDefaultScaling c nodepool scalingData tr = (r, tr')
   \<Longrightarrow> r \<noteq> Ok () \<and> tr' = tr"
  by (auto simp: SetDefaultScaling_def SetDefaultScaling_parse_def split: option.splits if_splits)

text \<open>
  Claim C7 at the record \<open>{}\<close>, a JSON object with neither \<open>MinCount\<close> and
  \<open>MaxCount\<close> nor \<open>Count\<close>: the update of the unchanged pool is sent and the call
  returns no error.
\<close>

lemma json_empty_object: "json_Unmarshal ''{}'' = Inr []"
  by (simp add: json_Unmarshal_def is_space_def)

theorem SetDefaultScaling_empty_record_no_error:
  "SetDefaultScaling world pool_A ''{}'' [] = (Ok (), [CAgentPoolsBeginCreateOrUpdate ''poolA'' pool_A])"
  by (simp add: SetDefaultScaling_def SetDefaultScaling_parse_def SetDefaultScaling_decide_def
        SetDefaultScaling_apply_def json_empty_object has_key_def
        world_def pool_A_def pool_props_def)

section \<open>Every function only extends the trace\<close>

lemma KillJobByPod_trace: "KillJobByPod c pod tr = (r, tr') \<Longrightarrow> \<exists>ext. tr' = tr @ ext"
  by (auto simp: KillJobByPod_def Let_def split: if_splits option.splits)

lemma KillPod_trace: "KillPod c pod tr = (r, tr') \<Longrightarrow> \<exists>ext. tr' = tr @ ext"
  by (auto simp: KillPod_def split: option.splits)

lemma fetchPodLogs_trace: "fetchPodLogs c n ns tr = (r, tr') \<Longrightarrow> \<exists>ext. tr' = tr @ ext"
  by (auto simp: fetchPodLogs_def split: sum.splits)

lemma getPodsPool_trace: "getPodsPool c n ns tr = (r, tr') \<Longrightarrow> \<exists>ext. tr' = tr @ ext"
  by (auto simp: getPodsPool_def split: sum.splits option.splits)

lemma EvictIdlePods_trace: "EvictIdlePods c pods tr = (r, tr') \<Longrightarrow> \<exists>ext. tr' = tr @ ext"
  using first_failure_calls [of c pods tr r tr'] by (auto simp: EvictIdlePods_first_failure)

lemma GetSafeToEvictPods_keys_trace:
  "GetSafeToEvictPods_keys c spec pod kvs acc tr = (r, tr') \<Longrightarrow> \<exists>ext. tr' = tr @ ext"
proof (induction kvs arbitrary: acc tr)
  case Nil
  then show ?case by simp
next
  case (Cons kv kvs)
  obtain key val where kv: "kv = (key, val)" by (cases kv)
  show ?case
  proof (cases "map_index (Pod_Labels pod) key \<noteq> val \<and> Phase pod = PodRunning")
    case False
    then show ?thesis using Cons kv by auto
  next
    case True
    obtain l tr1 where f: "fetchPodLogs c (Pod_Name pod) (Pod_Namespace pod) tr = (l, tr1)"
      by (cases "fetchPodLogs c (Pod_Name pod) (Pod_Namespace pod) tr")
    from fetchPodLogs_trace [OF f] obtain e1 where e1: "tr1 = tr @ e1" by blast
    from Cons.prems kv True f obtain acc1 where
      "GetSafeToEvictPods_keys c spec pod kvs acc1 tr1 = (r, tr')"
      by (cases l) auto
    from Cons.IH [OF this] e1 show ?thesis by auto
  qed
qed

lemma GetSafeToEvictPods_items_trace:
  "GetSafeToEvictPods_items c spec items acc tr = (r, tr') \<Longrightarrow> \<exists>ext. tr' = tr @ ext"
proof (induction items arbitrary: acc tr)
  case Nil
  then show ?case by simp
next
  case (Cons pod items)
  show ?case
  proof (cases "Pod_Namespace pod \<in> set (Namespaces spec)")
    case False
    then show ?thesis using Cons by auto
  next
    case True
    obtain acc1 tr1 where k: "GetSafeToEvictPods_keys c spec pod (LabelSelector spec) acc tr = (acc1, tr1)"
      by (cases "GetSafeToEvictPods_keys c spec pod (LabelSelector spec) acc tr")
    from GetSafeToEvictPods_keys_trace [OF k] obtain e1 where e1: "tr1 = tr @ e1" by blast
    have "GetSafeToEvictPods_items c spec items acc1 tr1 = (r, tr')"
      using Cons.prems True k by simp
    from Cons.IH [OF this] e1 show ?thesis by auto
  qed
qed

lemma GetSafeToEvictPods_trace: "GetSafeToEvictPods c spec tr = (r, tr') \<Longrightarrow> \<exists>ext. tr' = tr @ ext"
  by (auto simp: GetSafeToEvictPods_def split: sum.splits prod.splits dest: GetSafeToEvictPods_items_trace)

lemma getConfigMap_trace: "getConfigMap c ns n tr = (r, tr') \<Longrightarrow> \<exists>ext. tr' = tr @ ext"
  by (auto simp: getConfigMap_def split: sum.splits if_splits)

lemma CreateConfigMap_trace: "CreateConfigMap c ns n d tr = (r, tr') \<Longrightarrow> \<exists>ext. tr' = tr @ ext"
  by (auto simp: CreateConfigMap_def split: sum.splits prod.splits option.splits dest: getConfigMap_trace)

lemma DeleteConfigMap_trace: "DeleteConfigMap c ns n tr = (r, tr') \<Longrightarrow> \<exists>ext. tr' = tr @ ext"
  by (auto simp: DeleteConfigMap_def split: option.splits if_splits)

lemma GetConfigMapData_trace: "GetConfigMapData c ns n tr = (r, tr') \<Longrightarrow> \<exists>ext. tr' = tr @ ext"
  by (auto simp: GetConfigMapData_def split: sum.splits prod.splits if_splits dest: getConfigMap_trace)

lemma GetNodePoolByName_trace: "GetNodePoolByName c n tr = (r, tr') \<Longrightarrow> \<exists>ext. tr' = tr @ ext"
  by (auto simp: GetNodePoolByName_def split: sum.splits if_splits)

lemma getNodeImageVersions_trace: "getNodeImageVersions c ns tr = (r, tr') \<Longrightarrow> \<exists>ext. tr' = tr @ ext"
  by (auto simp: getNodeImageVersions_def split: sum.splits)

lemma getNodePoolUpgradeProfile_trace:
  "getNodePoolUpgradeProfile c n tr = (r, tr') \<Longrightarrow> \<exists>ext. tr' = tr @ ext"
  by (auto simp: getNodePoolUpgradeProfile_def split: sum.splits option.splits)

lemma GetNodesByNodePool_trace: "GetNodesByNodePool c n tr = (r, tr') \<Longrightarrow> \<exists>ext. tr' = tr @ ext"
  by (auto simp: GetNodesByNodePool_def split: sum.splits)

lemma HasRunningStatefulPods_trace:
  "HasRunningStatefulPods c nodes nss tr = (r, tr') \<Longrightarrow> \<exists>ext. tr' = tr @ ext"
proof (induction nss arbitrary: tr)
  case Nil
  then show ?case by simp
next
  case (Cons ns nss)
  show ?case
  proof (cases "Pods_List c tr ns")
    case (Inl err)
    then show ?thesis using Cons.prems by auto
  next
    case (Inr items)
    show ?thesis
    proof (cases "list_ex (\<lambda>pod. Phase pod = PodRunning
                             \<and> list_ex (\<lambda>node. NodeName pod = Node_Name node) nodes) items")
      case True
      then show ?thesis using Cons.prems Inr by auto
    next
      case False
      then have "HasRunningStatefulPods c nodes nss (tr @ [CPodsList ns]) = (r, tr')"
        using Cons.prems Inr by simp
      from Cons.IH [OF this] show ?thesis by auto
    qed
  qed
qed

lemma CreateTemporaryNodePool_trace:
  "CreateTemporaryNodePool c n s tr = (r, tr') \<Longrightarrow> \<exists>ext. tr' = tr @ ext"
  by (auto simp: CreateTemporaryNodePool_def Let_def split: sum.splits option.splits)

lemma GetNodePoolProvisioningState_trace:
  "GetNodePoolProvisioningState c n tr = (r, tr') \<Longrightarrow> \<exists>ext. tr' = tr @ ext"
  by (auto simp: GetNodePoolProvisioningState_def split: sum.splits option.splits)

lemma UpgradeNodeImageVersion_trace:
  "UpgradeNodeImageVersion c p tr = (r, tr') \<Longrightarrow> \<exists>ext. tr' = tr @ ext"
  by (auto simp: UpgradeNodeImageVersion_def split: sum.splits option.splits prod.splits if_splits
           dest!: getNodeImageVersions_trace getNodePoolUpgradeProfile_trace)

lemma RemoveTemporaryNodePool_trace:
  "RemoveTemporaryNodePool c n tr = (r, tr') \<Longrightarrow> \<exists>ext. tr' = tr @ ext"
  by (auto simp: RemoveTemporaryNodePool_def split: option.splits)

lemma CordonNodesByAgentPool_nodes_trace:
  "CordonNodesByAgentPool_nodes c b nodes tr = (r, tr') \<Longrightarrow> \<exists>ext. tr' = tr @ ext"
proof (induction nodes arbitrary: tr)
  case Nil
  then show ?case by simp
next
  case (Cons node nodes)
  show ?case
  proof (cases "Nodes_Update c tr (node\<lparr>Unschedulable := b\<rparr>)")
    case (Some err)
    then show ?thesis using Cons.prems by auto
  next
    case None
    then have "CordonNodesByAgentPool_nodes c b nodes (tr @ [CNodesUpdate (node\<lparr>Unschedulable := b\<rparr>)]) = (r, tr')"
      using Cons.prems by simp
    from Cons.IH [OF this] show ?thesis by auto
  qed
qed

lemma CordonNodesByAgentPool_trace:
  "CordonNodesByAgentPool c n b tr = (r, tr') \<Longrightarrow> \<exists>ext. tr' = tr @ ext"
  by (auto simp: CordonNodesByAgentPool_def split: sum.splits prod.splits
           dest!: GetNodesByNodePool_trace CordonNodesByAgentPool_nodes_trace)

lemma DisableAutoScaling_trace:
  "DisableAutoScaling c pools tr = (r, tr') \<Longrightarrow> \<exists>ext. tr' = tr @ ext"
proof (induction pools arbitrary: tr)
  case Nil
  then show ?case by simp
next
  case (Cons kp pools)
  obtain key pool where kp: "kp = (key, pool)" by (cases kp)
  have "tr' = tr \<or> (\<exists>x. tr' = tr @ [x]) \<or> (\<exists>tr1 x. tr1 = tr @ [x] \<and> DisableAutoScaling c pools tr1 = (r, tr'))
        \<or> DisableAutoScaling c pools tr = (r, tr')"
    using Cons.prems kp by (auto split: option.splits if_splits)
  then show ?case using Cons.IH by fastforce
qed

lemma SetDefaultScaling_apply_trace:
  "SetDefaultScaling_apply c n p tr = (r, tr') \<Longrightarrow> \<exists>ext. tr' = tr @ ext"
  by (auto simp: SetDefaultScaling_apply_def split: option.splits if_splits)

lemma SetDefaultScaling_decide_trace:
  "SetDefaultScaling_decide c n p cfg tr = (r, tr') \<Longrightarrow> \<exists>ext. tr' = tr @ ext"
  by (auto simp: SetDefaultScaling_decide_def Let_def split: option.splits if_splits
           dest!: SetDefaultScaling_apply_trace)

lemma SetDefaultScaling_parse_trace:
  "SetDefaultScaling_parse c p d tr = (r, tr') \<Longrightarrow> \<exists>ext. tr' = tr @ ext"
  by (auto simp: SetDefaultScaling_parse_def split: option.splits sum.splits
           dest!: SetDefaultScaling_decide_trace)

lemma SetDefaultScaling_trace:
  "SetDefaultScaling c p d tr = (r, tr') \<Longrightarrow> \<exists>ext. tr' = tr @ ext"
  by (auto simp: SetDefaultScaling_def split: option.splits if_splits
           dest!: SetDefaultScaling_parse_trace)

lemma performSafeEviction_pools_trace:
  "performSafeEviction_pools c spec names tr = (r, tr') \<Longrightarrow> \<exists>ext. tr' = tr @ ext"
proof (induction names arbitrary: tr)
  case Nil
  then show ?case by simp
next
  case (Cons n names)
  obtain r1 tr1 where a: "CordonNodesByAgentPool c n True tr = (r1, tr1)"
    by (cases "CordonNodesByAgentPool c n True tr")
  obtain r2 tr2 where b: "GetSafeToEvictPods c spec tr1 = (r2, tr2)"
    by (cases "GetSafeToEvictPods c spec tr1")
  obtain r3 tr3 where d: "GetNodesByNodePool c n tr2 = (r3, tr3)"
    by (cases "GetNodesByNodePool c n tr2")
  from CordonNodesByAgentPool_trace [OF a] obtain e1 where e1: "tr1 = tr @ e1" by blast
  from GetSafeToEvictPods_trace [OF b] obtain e2 where e2: "tr2 = tr1 @ e2" by blast
  from GetNodesByNodePool_trace [OF d] obtain e3 where e3: "tr3 = tr2 @ e3" by blast
  show ?case
  proof (cases r1)
    case (Some err)
    then show ?thesis using Cons.prems a e1 by auto
  next
    case None
    show ?thesis
    proof (cases r2)
      case (Inl err)
      then show ?thesis using Cons.prems a None b e1 e2 by auto
    next
      case (Inr pods)
      show ?thesis
      proof (cases r3)
        case (Inl err)
        then show ?thesis using Cons.prems a None b Inr d e1 e2 e3 by auto
      next
        case nodes: (Inr nodes)
        obtain r4 tr4 where f: "EvictIdlePods c (filterPodsOnNodes pods nodes) tr3 = (r4, tr4)"
          by (cases "EvictIdlePods c (filterPodsOnNodes pods nodes) tr3")
        from EvictIdlePods_trace [OF f] obtain e4 where e4: "tr4 = tr3 @ e4" by blast
        show ?thesis
        proof (cases r4)
          case (Some err)
          then show ?thesis using Cons.prems a None b Inr d nodes f e1 e2 e3 e4 by auto
        next
          case n4: None
          then have "performSafeEviction_pools c spec names tr4 = (r, tr')"
            using Cons.prems a None b Inr d nodes f by simp
          from Cons.IH [OF this] show ?thesis using e1 e2 e3 e4 by auto
        qed
      qed
    qed
  qed
qed

lemma performSafeEviction_trace:
  "performSafeEviction c pools se tr = (r, tr') \<Longrightarrow> \<exists>ext. tr' = tr @ ext"
  by (auto simp: performSafeEviction_def split: prod.splits result.splits
           dest!: DisableAutoScaling_trace performSafeEviction_pools_trace)

lemma Reconcile_creating_trace:
  "Reconcile_creating c cfg se tr = (r, tr') \<Longrightarrow> \<exists>ext. tr' = tr @ ext"
  by (auto simp: Reconcile_creating_def split: prod.splits sum.splits if_splits
           dest!: GetNodePoolProvisioningState_trace)

lemma Reconcile_record_trace:
  "Reconcile_record c cfg req se pools tr = (r, tr') \<Longrightarrow> \<exists>ext. tr' = tr @ ext"
  by (auto simp: Reconcile_record_def split: prod.splits sum.splits if_splits option.splits
           dest!: GetConfigMapData_trace CreateConfigMap_trace)

lemma Reconcile_evict_trace:
  "Reconcile_evict c cfg se pools tr = (r, tr') \<Longrightarrow> \<exists>ext. tr' = tr @ ext"
  by (auto simp: Reconcile_evict_def split: prod.splits result.splits
           dest!: performSafeEviction_trace)

lemma Reconcile_upgrade_trace:
  "Reconcile_upgrade c cfg se names tr = (r, tr') \<Longrightarrow> \<exists>ext. tr' = tr @ ext"
proof (induction names arbitrary: tr)
  case Nil
  then show ?case by simp
next
  case (Cons n names)
  obtain r1 tr1 where a: "GetNodesByNodePool c n tr = (r1, tr1)"
    by (cases "GetNodesByNodePool c n tr")
  from GetNodesByNodePool_trace [OF a] obtain e1 where e1: "tr1 = tr @ e1" by blast
  show ?case
  proof (cases r1)
    case (Inl err)
    then show ?thesis using Cons.prems a e1 by auto
  next
    case (Inr nodes)
    obtain r2 tr2 where b: "HasRunningStatefulPods c nodes (Namespaces (Spec se)) tr1 = (r2, tr2)"
      by (cases "HasRunningStatefulPods c nodes (Namespaces (Spec se)) tr1")
    from HasRunningStatefulPods_trace [OF b] obtain e2 where e2: "tr2 = tr1 @ e2" by blast
    show ?thesis
    proof (cases r2)
      case (Inl err)
      then show ?thesis using Cons.prems a Inr b e1 e2 by auto
    next
      case has: (Inr hasRunningPods)
      show ?thesis
      proof (cases hasRunningPods)
        case True
        then have "Reconcile_upgrade c cfg se names tr2 = (r, tr')"
          using Cons.prems a Inr b has by simp
        from Cons.IH [OF this] show ?thesis using e1 e2 by auto
      next
        case False
        obtain r3 tr3 where d: "GetNodePoolByName c n tr2 = (r3, tr3)"
          by (cases "GetNodePoolByName c n tr2")
        from GetNodePoolByName_trace [OF d] obtain e3 where e3: "tr3 = tr2 @ e3" by blast
        show ?thesis
        proof (cases r3)
          case (Inl err)
          then show ?thesis using Cons.prems a Inr b has False d e1 e2 e3 by auto
        next
          case pool: (Inr nodepool)
          show ?thesis
          proof (cases "is_state nodepool ''UpgradingNodeImageVersion''")
            case True
            then show ?thesis using Cons.prems a Inr b has False d pool e1 e2 e3
              by (auto split: option.splits)
          next
            case up: False
            obtain r4 tr4 where f: "UpgradeNodeImageVersion c nodepool tr3 = (r4, tr4)"
              by (cases "UpgradeNodeImageVersion c nodepool tr3")
            from UpgradeNodeImageVersion_trace [OF f] obtain e4 where e4: "tr4 = tr3 @ e4" by blast
            show ?thesis
            proof (cases r4)
              case (Ok u)
              then have "Reconcile_upgrade c cfg se names tr4 = (r, tr')"
                using Cons.prems a Inr b has False d pool up f by simp
              from Cons.IH [OF this] show ?thesis using e1 e2 e3 e4 by auto
            next
              case (Err err)
              then show ?thesis using Cons.prems a Inr b has False d pool up f e1 e2 e3 e4 by auto
            next
              case Panic
              then show ?thesis using Cons.prems a Inr b has False d pool up f e1 e2 e3 e4 by auto
            qed
          qed
        qed
      qed
    qed
  qed
qed

lemma Reconcile_restore_trace:
  "Reconcile_restore c cfg outdated data names tr = (r, tr') \<Longrightarrow> \<exists>ext. tr' = tr @ ext"
proof (induction names arbitrary: tr)
  case Nil
  then show ?case by simp
next
  case (Cons n names)
  show ?case
  proof (cases "map_of outdated n = None")
    case False
    then obtain p where "map_of outdated n = Some p" by auto
    then have "Reconcile_restore c cfg outdated data names tr = (r, tr')"
      using Cons.prems by simp
    from Cons.IH [OF this] show ?thesis .
  next
    case True
    obtain r1 tr1 where a: "GetNodePoolByName c n tr = (r1, tr1)"
      by (cases "GetNodePoolByName c n tr")
    from GetNodePoolByName_trace [OF a] obtain e1 where e1: "tr1 = tr @ e1" by blast
    show ?thesis
    proof (cases r1)
      case (Inl err)
      then show ?thesis using Cons.prems True a e1 by auto
    next
      case (Inr nodepool)
      obtain r2 tr2 where b: "SetDefaultScaling c nodepool (map_index data n) tr1 = (r2, tr2)"
        by (cases "SetDefaultScaling c nodepool (map_index data n) tr1")
      from SetDefaultScaling_trace [OF b] obtain e2 where e2: "tr2 = tr1 @ e2" by blast
      show ?thesis
      proof (cases r2)
        case (Err err)
        then show ?thesis using Cons.prems True a Inr b e1 e2
          by (auto split: if_splits option.splits)
      next
        case Panic
        then show ?thesis using Cons.prems True a Inr b e1 e2 by auto
      next
        case (Ok u)
        obtain r3 tr3 where d: "CordonNodesByAgentPool c n False tr2 = (r3, tr3)"
          by (cases "CordonNodesByAgentPool c n False tr2")
        from CordonNodesByAgentPool_trace [OF d] obtain e3 where e3: "tr3 = tr2 @ e3" by blast
        have "Reconcile_restore c cfg outdated data names tr3 = (r, tr')"
          using Cons.prems True a Inr b Ok d by simp
        from Cons.IH [OF this] show ?thesis using e1 e2 e3 by auto
      qed
    qed
  qed
qed

lemma Reconcile_cleanup_trace:
  "Reconcile_cleanup c cfg req se oN oP tr = (r, tr') \<Longrightarrow> \<exists>ext. tr' = tr @ ext"
proof (cases "length oN = 0 \<and> length oP = 0")
  case False
  assume "Reconcile_cleanup c cfg req se oN oP tr = (r, tr')"
  then show ?thesis using False by (auto simp: Reconcile_cleanup_def)
next
  case True
  assume p: "Reconcile_cleanup c cfg req se oN oP tr = (r, tr')"
  obtain r1 tr1 where a: "GetNodePoolByName c (GetTemporaryNodepoolName se) tr = (r1, tr1)"
    by (cases "GetNodePoolByName c (GetTemporaryNodepoolName se) tr")
  from GetNodePoolByName_trace [OF a] obtain e1 where e1: "tr1 = tr @ e1" by blast
  show ?thesis
  proof (cases r1)
    case (Inl err)
    then show ?thesis using p True a e1 by (auto simp: Reconcile_cleanup_def split: if_splits)
  next
    case (Inr pool)
    show ?thesis
    proof (cases "AgentPool_Name pool")
      case None
      then show ?thesis using p True a Inr e1 by (auto simp: Reconcile_cleanup_def)
    next
      case (Some name)
      obtain r2 tr2 where b: "DisableAutoScaling c [(name, pool)] tr1 = (r2, tr2)"
        by (cases "DisableAutoScaling c [(name, pool)] tr1")
      from DisableAutoScaling_trace [OF b] obtain e2 where e2: "tr2 = tr1 @ e2" by blast
      obtain r3 tr3 where d: "GetNodesByNodePool c name tr2 = (r3, tr3)"
        by (cases "GetNodesByNodePool c name tr2")
      from GetNodesByNodePool_trace [OF d] obtain e3 where e3: "tr3 = tr2 @ e3" by blast
      obtain r4 tr4 where f: "performSafeEviction c [(name, pool)] se tr3 = (r4, tr4)"
        by (cases "performSafeEviction c [(name, pool)] se tr3")
      from performSafeEviction_trace [OF f] obtain e4 where e4: "tr4 = tr3 @ e4" by blast
      obtain r5 tr5 where g: "HasRunningStatefulPods c (case r3 of Inr ns \<Rightarrow> ns | Inl x \<Rightarrow> []) (Namespaces (Spec se)) tr4 = (r5, tr5)"
        by (cases "HasRunningStatefulPods c (case r3 of Inr ns \<Rightarrow> ns | Inl x \<Rightarrow> []) (Namespaces (Spec se)) tr4")
      from HasRunningStatefulPods_trace [OF g] obtain e5 where e5: "tr5 = tr4 @ e5" by blast
      obtain r6 tr6 where h: "RemoveTemporaryNodePool c (GetTemporaryNodepoolName se) tr5 = (r6, tr6)"
        by (cases "RemoveTemporaryNodePool c (GetTemporaryNodepoolName se) tr5")
      from RemoveTemporaryNodePool_trace [OF h] obtain e6 where e6: "tr6 = tr5 @ e6" by blast
      obtain r7 tr7 where k: "DeleteConfigMap c (Request_Namespace req) (GetConfigmapName se) tr6 = (r7, tr7)"
        by (cases "DeleteConfigMap c (Request_Namespace req) (GetConfigmapName se) tr6")
      from DeleteConfigMap_trace [OF k] obtain e7 where e7: "tr7 = tr6 @ e7" by blast
      have "tr' = tr1 \<or> tr' = tr2 \<or> tr' = tr3 \<or> tr' = tr4 \<or> tr' = tr5 \<or> tr' = tr6 \<or> tr' = tr7"
        using p True a Inr Some b d f g h k
        by (auto simp: Reconcile_cleanup_def split: result.splits sum.splits if_splits option.splits)
      then show ?thesis using e1 e2 e3 e4 e5 e6 e7 by auto
    qed
  qed
qed

section \<open>Which delay the reconciler returns\<close>

lemma short_delay_requeue [simp]:
  "short_delay cfg (requeue (ErrorReconcileTime cfg) err)"
  "short_delay cfg (requeue (SuccessReconcileTime cfg) err)"
  by (simp_all add: short_delay_def requeue_def)

lemma Reconcile_creating_short:
  "Reconcile_creating c cfg se tr = (Return r, tr') \<Longrightarrow> short_delay cfg r"
  by (auto simp: Reconcile_creating_def split: prod.splits sum.splits if_splits)

lemma Reconcile_record_short:
  "Reconcile_record c cfg req se pools tr = (Return r, tr') \<Longrightarrow> short_delay cfg r"
  by (auto simp: Reconcile_record_def split: prod.splits sum.splits if_splits option.splits)

lemma Reconcile_evict_short:
  "Reconcile_evict c cfg se pools tr = (Return r, tr') \<Longrightarrow> short_delay cfg r"
  by (auto simp: Reconcile_evict_def split: prod.splits result.splits)

lemma Reconcile_upgrade_short:
  "Reconcile_upgrade c cfg se names tr = (Return r, tr') \<Longrightarrow> short_delay cfg r"
proof (induction names arbitrary: tr)
  case Nil
  then show ?case by simp
next
  case (Cons n names)
  from Cons.prems have
    "short_delay cfg r \<or> (\<exists>tr1. Reconcile_upgrade c cfg se names tr1 = (Return r, tr'))"
    by (auto split: prod.splits sum.splits if_splits option.splits result.splits)
  then show ?case using Cons.IH by blast
qed

lemma Reconcile_restore_short:
  "Reconcile_restore c cfg outdated data names tr = (Return r, tr') \<Longrightarrow> short_delay cfg r"
proof (induction names arbitrary: tr)
  case Nil
  then show ?case by simp
next
  case (Cons n names)
  from Cons.prems have
    "short_delay cfg r \<or> (\<exists>tr1. Reconcile_restore c cfg outdated data names tr1 = (Return r, tr'))"
    by (auto split: prod.splits sum.splits if_splits option.splits result.splits)
  then show ?case using Cons.IH by blast
qed

lemma Reconcile_cleanup_short:
  "Reconcile_cleanup c cfg req se oN oP tr = (Return r, tr') \<Longrightarrow> short_delay cfg r"
  by (auto simp: Reconcile_cleanup_def
           split: prod.splits sum.splits if_splits option.splits result.splits)

end
